theory Spec2Isabelle
  imports Main
begin

section \<open>Text helpers\<close>

text \<open>The line feed the driver writes as \<^verbatim>\<open>"\n"\<close>, and the double quote.\<close>

definition NL :: string where
  "NL = [CHR 0x0A]"

definition DQ :: string where
  "DQ = [CHR 0x22]"

text \<open>
  \<^verbatim>\<open>Array.prototype.join\<close> on an array of strings (and, further down, on lists of
  tokens).
\<close>

fun join :: "'a list \<Rightarrow> 'a list list \<Rightarrow> 'a list" where
  "join sep [] = []"
| "join sep [x] = x"
| "join sep (x # y # ys) = x @ sep @ join sep (y # ys)"

text \<open>
  Decimal rendering of a non-negative integer, which is what string concatenation does
  with the counter (and with the index of a type parameter). The counter is a
  JavaScript number that starts at 0 and grows by one: it is taken as a natural number
  (it stays an integer, printed in decimal, as long as it is below \<open>2\<^sup>5\<^sup>3\<close>).
  \<open>digit\<close> is only applied to numbers below ten.
\<close>

definition digit :: "nat \<Rightarrow> char" where
  "digit d = ''0123456789'' ! d"

function show_nat :: "nat \<Rightarrow> string" where
  "show_nat n = (if n < 10 then [digit n] else show_nat (n div 10) @ [digit (n mod 10)])"
  by pat_completeness auto
termination
  by (relation "measure id") auto

declare show_nat.simps [simp del]

section \<open>The driver: instruction stream, formatting, synthesis\<close>

text \<open>
  The three classes of \<^verbatim>\<open>ParsedExpression\<close> that \<^verbatim>\<open>formatViewExpr\<close> tests with
  \<^verbatim>\<open>instanceof\<close>, with the fields it reads. \<open>UnknownExpression\<close> stands for a value
  of none of the three classes (the \<^verbatim>\<open>else\<close> branch), carrying its rendering.
\<close>

datatype ParsedExpression =
    ParsedVariable (expr: string) (type: string)
  | LoopStart (loopExpr: string)
  | LoopEnd
  | UnknownExpression string

datatype error =
    RangeError
  | UnknownParsedExpression string
  | ENOENT string
  | CollaboratorError string

text \<open>
  \<^verbatim>\<open>String.prototype.repeat\<close>: a negative count raises \<^verbatim>\<open>RangeError\<close> (the
  engine's limit on the length of a string is not modelled).
\<close>

definition repeat :: "string \<Rightarrow> int \<Rightarrow> error + string" where
  "repeat s c = (if c < 0 then Inl RangeError else Inr (concat (replicate (nat c) s)))"

text \<open>
  \<^verbatim>\<open>formatViewExpr\<close>. The module-level counter \<^verbatim>\<open>var i\<close> is threaded through: the
  function takes its value and returns the new one together with the text or the error.
  \<^verbatim>\<open>i++\<close> is evaluated before \<^verbatim>\<open>addScopeAccessors\<close> is called, so the counter has
  advanced also when that call raises. \<open>acc\<close> is the one-argument \<^verbatim>\<open>addScopeAccessors\<close>
  the driver imports.
\<close>

definition formatViewExpr ::
  "(string \<Rightarrow> error + string) \<Rightarrow> ParsedExpression \<times> int \<Rightarrow> nat \<Rightarrow> (error + string) \<times> nat" where
  "formatViewExpr acc viewExprIndex i =
     (case viewExprIndex of (viewExpr, indentLevel) \<Rightarrow>
        (case repeat '' '' ((1 + indentLevel) * 4) of
           Inl e \<Rightarrow> (Inl e, i)
         | Inr spaces \<Rightarrow>
            (case viewExpr of
               ParsedVariable ex ty \<Rightarrow>
                 (case acc ex of
                    Inl e \<Rightarrow> (Inl e, i + 1)
                  | Inr a \<Rightarrow>
                      (Inr (spaces @ ''const ___x'' @ show_nat i @ '': '' @ ty @
                            '' = '' @ a @ '';''), i + 1))
             | LoopStart le \<Rightarrow>
                 (case repeat '' '' (indentLevel * 4) of
                    Inl e \<Rightarrow> (Inl e, i)
                  | Inr sp \<Rightarrow> (Inr (sp @ le), i))
             | LoopEnd \<Rightarrow> (Inr (spaces @ ''}''), i)
             | UnknownExpression v \<Rightarrow>
                 (Inl (UnknownParsedExpression (''unknown parsed expression type: '' @ v)), i))))"

fun indentChange :: "ParsedExpression \<Rightarrow> int" where
  "indentChange (LoopStart le) = 1"
| "indentChange LoopEnd = - 1"
| "indentChange e = 0"

text \<open>
  \<^verbatim>\<open>soFar.last() || 0\<close>: the last level, or 0 when the list is empty (or the last level
  is the falsy 0).
\<close>

definition lastOr0 :: "int list \<Rightarrow> int" where
  "lastOr0 soFar = (if soFar = [] then 0 else if last soFar = 0 then 0 else last soFar)"

definition viewLevels :: "ParsedExpression list \<Rightarrow> int list" where
  "viewLevels viewExprs =
     foldl (\<lambda>soFar cur. soFar @ [lastOr0 soFar + indentChange cur]) [] viewExprs"

text \<open>
  \<^verbatim>\<open>viewExprs.zip(viewLevels).map(formatViewExpr)\<close>: the pairs are formatted from left to
  right, and the first exception ends the mapping.
\<close>

fun formatAll ::
  "(string \<Rightarrow> error + string) \<Rightarrow> (ParsedExpression \<times> int) list \<Rightarrow> nat \<Rightarrow>
   (error + string list) \<times> nat" where
  "formatAll acc [] i = (Inr [], i)"
| "formatAll acc (p # ps) i =
     (case formatViewExpr acc p i of
        (Inl e, i') \<Rightarrow> (Inl e, i')
      | (Inr l, i') \<Rightarrow>
          (case formatAll acc ps i' of
             (Inl e, i'') \<Rightarrow> (Inl e, i'')
           | (Inr ls, i'') \<Rightarrow> (Inr (l # ls), i'')))"

section \<open>The TypeScript syntax tree read by controller-parser.ts\<close>

text \<open>
  The kinds of \<^verbatim>\<open>ts.SyntaxKind\<close> that the code names; \<open>OtherKind\<close> numbers the rest.
\<close>

datatype SyntaxKind =
    Unknown | SourceFile | ModuleBlock | ModuleDeclaration | InterfaceDeclaration
  | ClassDeclaration | VariableStatement | EnumDeclaration | TypeAliasDeclaration
  | ImportEqualsDeclaration | ExpressionStatement | CallExpression
  | PropertyAccessExpression | PropertyAssignment | Identifier | StringLiteral
  | ObjectLiteralExpression | ArrowFunction | FunctionExpression | Block
  | ReturnStatement | AsExpression | ArrayLiteralExpression | ExportKeyword
  | OtherKind nat

text \<open>
  The \<^verbatim>\<open>name\<close> child of a node. The code reads it only through its kind, its
  \<^verbatim>\<open>text\<close> and its \<^verbatim>\<open>getText()\<close>. A node without a name carries a name of kind
  \<open>Unknown\<close>, which no \<^verbatim>\<open>maybeNodeType\<close> test accepts, as \<^verbatim>\<open>undefined\<close> is not.
\<close>

datatype Name = Name (nameKind: SyntaxKind) (nameText: string) (nameGetText: string)

text \<open>
  A \<^verbatim>\<open>ts.Node\<close> with the properties the code reads: \<^verbatim>\<open>kind\<close>, \<^verbatim>\<open>getText()\<close>,
  \<^verbatim>\<open>text\<close> (here \<open>nodeText\<close>), \<^verbatim>\<open>name\<close>, \<^verbatim>\<open>expression\<close>, \<^verbatim>\<open>arguments\<close>, \<^verbatim>\<open>modifiers\<close>,
  \<^verbatim>\<open>typeParameters\<close>, and the children in the order \<^verbatim>\<open>ts.forEachChild\<close> visits them.
  \<^verbatim>\<open>node.parent\<close> is not stored: the traversal passes it down (the tree is built with
  \<^verbatim>\<open>setParentNodes = true\<close>, and the source file has no parent).
\<close>

datatype Node =
  Node (kind: SyntaxKind) (getText: string) (nodeText: string) (name: Name)
       (expression: "Node option") (arguments: "Node list")
       (modifiers: "Node list option") (typeParameters: "Node list option")
       (forEachChild: "Node list")

subsection \<open>Option helpers of prelude.ts\<close>

definition filterOpt :: "('a \<Rightarrow> bool) \<Rightarrow> 'a option \<Rightarrow> 'a option" where
  "filterOpt p x = (case x of None \<Rightarrow> None | Some v \<Rightarrow> if p v then Some v else None)"

definition orElse :: "'a option \<Rightarrow> 'a option \<Rightarrow> 'a option" where
  "orElse x y = (case x of None \<Rightarrow> y | Some v \<Rightarrow> Some v)"

definition liftA2 :: "('a \<Rightarrow> 'b \<Rightarrow> 'c) \<Rightarrow> 'a option \<Rightarrow> 'b option \<Rightarrow> 'c option" where
  "liftA2 f x y =
     (case x of None \<Rightarrow> None | Some a \<Rightarrow> (case y of None \<Rightarrow> None | Some b \<Rightarrow> Some (f a b)))"

definition isSome :: "'a option \<Rightarrow> bool" where
  "isSome x = (x \<noteq> None)"

definition maybeNodeType :: "SyntaxKind \<Rightarrow> Node option \<Rightarrow> Node option" where
  "maybeNodeType sKind input =
     (case input of None \<Rightarrow> None | Some n \<Rightarrow> if kind n = sKind then Some n else None)"

definition maybeCallExpression :: "Node option \<Rightarrow> Node option" where
  "maybeCallExpression = maybeNodeType CallExpression"

definition maybePropertyAccessExpression :: "Node option \<Rightarrow> Node option" where
  "maybePropertyAccessExpression = maybeNodeType PropertyAccessExpression"

definition maybeIdentifier :: "Node option \<Rightarrow> Node option" where
  "maybeIdentifier = maybeNodeType Identifier"

definition maybeStringLiteral :: "Node option \<Rightarrow> Node option" where
  "maybeStringLiteral = maybeNodeType StringLiteral"

text \<open>\<^verbatim>\<open>maybeIdentifier\<close> applied to a \<^verbatim>\<open>name\<close> child.\<close>

definition maybeIdentifierName :: "Name \<Rightarrow> Name option" where
  "maybeIdentifierName n = (if nameKind n = Identifier then Some n else None)"

text \<open>\<^verbatim>\<open>c.arguments[0]\<close>, \<^verbatim>\<open>undefined\<close> when there is no argument.\<close>

definition firstArgument :: "Node \<Rightarrow> Node option" where
  "firstArgument c = (case arguments c of [] \<Rightarrow> None | a # _ \<Rightarrow> Some a)"

subsection \<open>Controller and view connections\<close>

datatype ControllerViewInfo =
  ControllerViewInfo (cvi_controllerName: string) (cvi_viewPath: string)

datatype ModelViewInfo =
  ModelViewInfo (mvi_modelPath: string) (mvi_viewPath: string)

definition parseAngularModule :: "Node \<Rightarrow> (string \<times> string) option" where
  "parseAngularModule ex =
     (let callExpr = maybeCallExpression (expression ex);
          prop0 = Option.bind callExpr (\<lambda>callExpr. maybePropertyAccessExpression (expression callExpr));
          prop = Option.bind
                   (Option.bind prop0 (\<lambda>callProp. maybeCallExpression (expression callProp)))
                   (\<lambda>callPropCall. maybePropertyAccessExpression (expression callPropCall));
          receiver1 = map_option nodeText (Option.bind prop (\<lambda>p. maybeIdentifier (expression p)));
          call1 = map_option nameText (Option.bind prop (\<lambda>p. maybeIdentifierName (name p)))
      in if isSome (orElse (filterOpt (\<lambda>v. v = ''angular'') receiver1)
                           (filterOpt (\<lambda>v. v = ''module'') call1))
         then
           (let moduleCall = map_option (\<lambda>p. nameText (name p)) prop0
            in if isSome (filterOpt (\<lambda>v. v = ''controller'') moduleCall)
               then
                 (let ctrlName =
                        map_option nodeText
                          (Option.bind (filterOpt (\<lambda>c. length (arguments c) > 0) callExpr)
                             (\<lambda>c. maybeStringLiteral (firstArgument c)));
                      moduleName =
                        map_option nodeText
                          (Option.bind
                             (filterOpt (\<lambda>c. length (arguments c) > 0)
                                (Option.bind prop0 (\<lambda>p. maybeCallExpression (expression p))))
                             (\<lambda>c. maybeStringLiteral (firstArgument c)))
                  in liftA2 (\<lambda>md ctrl. (md, ctrl)) moduleName ctrlName)
               else None)
         else None)"

record ViewInfo =
  fileName :: string
  ngModuleName :: "string option"
  controllerName :: "string option"
  controllerViewInfos :: "ControllerViewInfo list"
  modelViewInfos :: "ModelViewInfo list"

text \<open>
  The registered connectors. Their callbacks are caller-supplied code; they are taken
  as functions of their arguments.
\<close>

record ControllerViewConnector =
  cvc_interceptAstNode :: SyntaxKind
  getControllerView :: "Node \<Rightarrow> string \<Rightarrow> ControllerViewInfo list"

record ModelViewConnector =
  mvc_interceptAstNode :: SyntaxKind
  getModelView :: "string \<Rightarrow> Node \<Rightarrow> string \<Rightarrow> ModelViewInfo list"

text \<open>
  The body of \<^verbatim>\<open>nodeExtractModuleOpenAngularModule\<close> before it recurses: the module
  and controller names, then every connector listening for the node's kind.
\<close>

definition moduleOpenVisit ::
  "string \<Rightarrow> string \<Rightarrow> ControllerViewConnector list \<Rightarrow> ModelViewConnector list \<Rightarrow>
   Node \<Rightarrow> ViewInfo \<Rightarrow> ViewInfo" where
  "moduleOpenVisit fName webappPath ctrlViewConnectors modelViewConnectors node vi =
     (let vi1 = (if controllerName vi = None \<and> kind node = ExpressionStatement
                 then (let mCtrlNgModule = parseAngularModule node
                       in vi\<lparr>ngModuleName := map_option fst mCtrlNgModule,
                             controllerName := map_option snd mCtrlNgModule\<rparr>)
                 else vi);
          vi2 = vi1\<lparr>controllerViewInfos := controllerViewInfos vi1 @
                   concat (map (\<lambda>conn. getControllerView conn node webappPath)
                             (filter (\<lambda>conn. cvc_interceptAstNode conn = kind node)
                                ctrlViewConnectors))\<rparr>
      in vi2\<lparr>modelViewInfos := modelViewInfos vi2 @
                concat (map (\<lambda>conn. getModelView conn fName node webappPath)
                          (filter (\<lambda>conn. mvc_interceptAstNode conn = kind node)
                             modelViewConnectors))\<rparr>)"

text \<open>
  \<^verbatim>\<open>nodeExtractModuleOpenAngularModule\<close>: the visit, then \<^verbatim>\<open>ts.forEachChild\<close> with
  the function itself (which returns nothing, so no child is skipped).
\<close>

fun nodeExtractModuleOpenAngularModule ::
  "string \<Rightarrow> string \<Rightarrow> ControllerViewConnector list \<Rightarrow> ModelViewConnector list \<Rightarrow>
   Node \<Rightarrow> ViewInfo \<Rightarrow> ViewInfo" where
  "nodeExtractModuleOpenAngularModule fName webappPath cs ms (Node k gt t nm ex ar mo tp ch) vi =
     fold (nodeExtractModuleOpenAngularModule fName webappPath cs ms) ch
       (moduleOpenVisit fName webappPath cs ms (Node k gt t nm ex ar mo tp ch) vi)"

text \<open>
  \<^verbatim>\<open>extractCtrlViewConnsAngularModule\<close>. \<open>createSourceFile\<close> is the TypeScript parser
  and \<open>fs\<close> the file system: reading a missing file raises.
\<close>

definition extractCtrlViewConnsAngularModule ::
  "(string \<Rightarrow> string \<Rightarrow> Node) \<Rightarrow> (string \<rightharpoonup> string) \<Rightarrow> string \<Rightarrow> string \<Rightarrow>
   ControllerViewConnector list \<Rightarrow> ModelViewConnector list \<Rightarrow> error + ViewInfo" where
  "extractCtrlViewConnsAngularModule createSourceFile fs fName webappPath
       ctrlViewConnectors modelViewConnectors =
     (case fs fName of
        None \<Rightarrow> Inl (ENOENT fName)
      | Some src \<Rightarrow>
          Inr (nodeExtractModuleOpenAngularModule fName webappPath
                 ctrlViewConnectors modelViewConnectors (createSourceFile fName src)
                 \<lparr>fileName = fName, ngModuleName = None, controllerName = None,
                  controllerViewInfos = [], modelViewInfos = []\<rparr>))"

subsection \<open>Scope extraction\<close>

text \<open>
  \<^verbatim>\<open>parseScopeInterface\<close>: the text of the interface and its generic parameters renamed
  \<^verbatim>\<open>T0, T1, ...\<close>, only when the interface is called \<^verbatim>\<open>Scope\<close>.
\<close>

definition typeParamsInfo :: "Node \<Rightarrow> string" where
  "typeParamsInfo iface =
     (case filterOpt (\<lambda>p. length p > 0) (typeParameters iface) of
        None \<Rightarrow> []
      | Some p \<Rightarrow> ''<'' @ join '', '' (map (\<lambda>idx. ''T'' @ show_nat idx) [0..<length p]) @ ''>'')"

definition parseScopeInterface :: "Node \<Rightarrow> (string \<times> string) option" where
  "parseScopeInterface iface =
     map_option (\<lambda>cts. (cts, typeParamsInfo iface))
       (filterOpt (\<lambda>_. nameGetText (name iface) = ''Scope'') (Some (getText iface)))"

definition nodeIsExported :: "Node \<Rightarrow> bool" where
  "nodeIsExported node =
     isSome (filterOpt (\<lambda>modifiers. \<exists>modifier \<in> set modifiers. kind modifier = ExportKeyword)
               (modifiers node))"

text \<open>
  The result of \<^verbatim>\<open>extractControllerScopeInfo\<close>, which is also the state of its
  traversal: \<open>tsModuleName\<close> is \<^verbatim>\<open>undefined\<close> (\<open>None\<close>) until a module declaration
  is met.
\<close>

record ControllerScopeInfo =
  tsModuleName :: "string option"
  scopeInfo :: "string option"
  scopeTypeParams :: "string option"
  typeAliases :: "string list"
  "imports" :: "string list"
  importNames :: "string list"
  nonExportedDeclarations :: "string list"
  viewFragments :: "string list"

record CtrlViewFragmentExtractor =
  interceptAstNode :: SyntaxKind
  getViewFragments :: "Node \<Rightarrow> string list"

text \<open>The test \<^verbatim>\<open>node.parent && node.parent.kind === ts.SyntaxKind.ModuleBlock\<close>.\<close>

definition parentIsModuleBlock :: "Node option \<Rightarrow> bool" where
  "parentIsModuleBlock parent = (case parent of None \<Rightarrow> False | Some p \<Rightarrow> kind p = ModuleBlock)"

text \<open>
  The body of \<^verbatim>\<open>nodeExtractScopeInterface\<close> before it recurses. \<open>parent\<close> is
  \<^verbatim>\<open>node.parent\<close>. \<^verbatim>\<open>if (tsModuleName)\<close> is false for \<^verbatim>\<open>undefined\<close> and for the
  empty string.
\<close>

definition scopeInterfaceVisit ::
  "CtrlViewFragmentExtractor list \<Rightarrow> Node option \<Rightarrow> Node \<Rightarrow>
   ControllerScopeInfo \<Rightarrow> ControllerScopeInfo" where
  "scopeInterfaceVisit ctrlViewFragmentExtractors parent node s0 =
     (let s1 =
        (if parentIsModuleBlock parent \<and> \<not> nodeIsExported node
         then
           (let a = (if kind node = InterfaceDeclaration
                     then (case parseScopeInterface node of
                             Some curIntfInfo \<Rightarrow>
                               s0\<lparr>scopeInfo := Some (fst curIntfInfo),
                                  scopeTypeParams := Some (snd curIntfInfo)\<rparr>
                           | None \<Rightarrow>
                               s0\<lparr>nonExportedDeclarations :=
                                    nonExportedDeclarations s0 @ [getText node]\<rparr>)
                     else s0);
                b = (if kind node = ClassDeclaration
                     then a\<lparr>nonExportedDeclarations := nonExportedDeclarations a @ [getText node]\<rparr>
                     else a);
                c = (if kind node = VariableStatement
                     then b\<lparr>nonExportedDeclarations := nonExportedDeclarations b @ [getText node]\<rparr>
                     else b)
            in (if kind node = EnumDeclaration
                then c\<lparr>nonExportedDeclarations := nonExportedDeclarations c @ [getText node]\<rparr>
                else c))
         else s0);
          s2 =
        (if kind node = ModuleDeclaration
         then (let moduleLevel = nameText (name node)
               in (case tsModuleName s1 of
                     None \<Rightarrow> s1\<lparr>tsModuleName := Some moduleLevel\<rparr>
                   | Some m \<Rightarrow>
                       if m \<noteq> [] then s1\<lparr>tsModuleName := Some (m @ ''.'' @ moduleLevel)\<rparr>
                       else s1\<lparr>tsModuleName := Some moduleLevel\<rparr>))
         else s1);
          s3 =
        (if kind node = TypeAliasDeclaration \<and> \<not> nodeIsExported node
         then s2\<lparr>typeAliases := typeAliases s2 @ [getText node]\<rparr>
         else s2);
          s4 =
        (if kind node = ImportEqualsDeclaration
         then s3\<lparr>imports := imports s3 @ [getText node],
                 importNames := importNames s3 @ [nameGetText (name node)]\<rparr>
         else s3);
          ctrlViewFragments =
            concat (map (\<lambda>extractor. getViewFragments extractor node)
                      (filter (\<lambda>extractor. interceptAstNode extractor = kind node)
                         ctrlViewFragmentExtractors))
      in s4\<lparr>viewFragments := viewFragments s4 @ ctrlViewFragments\<rparr>)"

fun nodeExtractScopeInterface ::
  "CtrlViewFragmentExtractor list \<Rightarrow> Node option \<Rightarrow> Node \<Rightarrow>
   ControllerScopeInfo \<Rightarrow> ControllerScopeInfo" where
  "nodeExtractScopeInterface exts parent (Node k gt t nm ex ar mo tp ch) s =
     fold (nodeExtractScopeInterface exts (Some (Node k gt t nm ex ar mo tp ch))) ch
       (scopeInterfaceVisit exts parent (Node k gt t nm ex ar mo tp ch) s)"

definition extractControllerScopeInfo ::
  "(string \<Rightarrow> string \<Rightarrow> Node) \<Rightarrow> CtrlViewFragmentExtractor list \<Rightarrow>
   (string \<rightharpoonup> string) \<Rightarrow> string \<Rightarrow> error + ControllerScopeInfo" where
  "extractControllerScopeInfo createSourceFile ctrlViewFragmentExtractors fs fName =
     (case fs fName of
        None \<Rightarrow> Inl (ENOENT fName)
      | Some src \<Rightarrow>
          Inr (nodeExtractScopeInterface ctrlViewFragmentExtractors None
                 (createSourceFile fName src)
                 \<lparr>tsModuleName = None, scopeInfo = None, scopeTypeParams = None,
                  typeAliases = [], imports = [], importNames = [],
                  nonExportedDeclarations = [], viewFragments = []\<rparr>))"

section \<open>The driver: one controller and one view\<close>

text \<open>
  The driver reads the scope record under the names of the revision it was written
  against: \<^verbatim>\<open>scopeContents\<close> is the text of the Scope interface, which
  controller-parser.ts calls \<^verbatim>\<open>scopeInfo\<close>, and \<^verbatim>\<open>interfaces\<close> are the declarations
  copied beside it, which controller-parser.ts calls \<^verbatim>\<open>nonExportedDeclarations\<close>.
\<close>

definition scopeContents :: "ControllerScopeInfo \<Rightarrow> string option" where
  "scopeContents c = scopeInfo c"

definition interfaces :: "ControllerScopeInfo \<Rightarrow> string list" where
  "interfaces c = nonExportedDeclarations c"

text \<open>The two fields of \<^verbatim>\<open>path.parse\<close> that the driver reads (\<^verbatim>\<open>dir\<close> and \<^verbatim>\<open>name\<close>).\<close>

record ParsedPath =
  dir :: string
  base_name :: string

text \<open>
  What the driver imports and does not define: the scope extraction and the view parser
  (both read the file system and may raise), the one-argument \<^verbatim>\<open>addScopeAccessors\<close>,
  and \<^verbatim>\<open>path.parse\<close>.
\<close>

record collaborators =
  co_extractControllerScopeInfo :: "(string \<rightharpoonup> string) \<Rightarrow> string \<Rightarrow> error + ControllerScopeInfo"
  co_parseView :: "(string \<rightharpoonup> string) \<Rightarrow> string \<Rightarrow> error + ParsedExpression list"
  co_addScopeAccessors :: "string \<Rightarrow> error + string"
  co_parse :: "string \<Rightarrow> ParsedPath"

text \<open>
  The state the driver changes: the module-level counter \<^verbatim>\<open>i\<close>, the files, and the
  lines written to the console.
\<close>

record state =
  counter_i :: nat
  files :: "string \<rightharpoonup> string"
  console :: "string list"

definition moduleWrap :: "ControllerScopeInfo \<Rightarrow> string \<Rightarrow> string" where
  "moduleWrap sc x =
     (case tsModuleName sc of
        Some n \<Rightarrow> ''module '' @ n @ '' {'' @ NL @ x @ NL @ ''}''
      | None \<Rightarrow> x)"

definition outputFname :: "collaborators \<Rightarrow> string \<Rightarrow> string \<Rightarrow> string" where
  "outputFname co controllerPath viewPath =
     (let pathInfo = co_parse co controllerPath; viewPathInfo = co_parse co viewPath
      in dir pathInfo @ ''/'' @ base_name pathInfo @ ''_'' @ base_name viewPathInfo @
         ''_viewtest.ts'')"

text \<open>
  The text handed to \<^verbatim>\<open>writeFileSync\<close>, given the formatted lines of the instruction
  stream and the text \<open>sct\<close> of the scope block.
\<close>

definition synthesized :: "ControllerScopeInfo \<Rightarrow> string \<Rightarrow> string list \<Rightarrow> string" where
  "synthesized sc sct ls =
     moduleWrap sc
       (join NL (imports sc) @ NL @
        join NL (typeAliases sc) @ NL @
        join NL (interfaces sc) @ NL @
        sct @
        NL @ NL @ ''function ___f($scope: Scope) {'' @ NL @
        join NL ls @
        NL @ ''}'' @ NL) @ NL"

text \<open>
  \<^verbatim>\<open>processControllerView\<close>. An exception leaves the state as it is at that point: the
  console line is written, the counter has advanced by the variables formatted so far,
  and no file is written.
\<close>

definition processControllerView ::
  "collaborators \<Rightarrow> string \<Rightarrow> string \<Rightarrow> state \<Rightarrow> (error + unit) \<times> state" where
  "processControllerView co controllerPath viewPath st0 =
     (let st = st0\<lparr>console := console st0 @
                  [''Processing view controller '' @ controllerPath @ '' '' @ viewPath]\<rparr>
      in case co_extractControllerScopeInfo co (files st) controllerPath of
           Inl e \<Rightarrow> (Inl e, st)
         | Inr sc \<Rightarrow>
             (case scopeContents sc of
                None \<Rightarrow> (Inr (), st)
              | Some sct \<Rightarrow>
                  (case co_parseView co (files st) viewPath of
                     Inl e \<Rightarrow> (Inl e, st)
                   | Inr viewExprs \<Rightarrow>
                       (case formatAll (co_addScopeAccessors co)
                               (zip viewExprs (viewLevels viewExprs)) (counter_i st) of
                          (Inl e, i') \<Rightarrow> (Inl e, st\<lparr>counter_i := i'\<rparr>)
                        | (Inr ls, i') \<Rightarrow>
                            (Inr (),
                             st\<lparr>counter_i := i',
                                files := (files st)
                                  (outputFname co controllerPath viewPath \<mapsto>
                                     synthesized sc sct ls)\<rparr>)))))"

section \<open>Notions used to state the properties\<close>

subsection \<open>Nesting of the instruction stream\<close>

definition isLoopStart :: "ParsedExpression \<Rightarrow> bool" where
  "isLoopStart e = (case e of LoopStart _ \<Rightarrow> True | _ \<Rightarrow> False)"

definition isVariable :: "ParsedExpression \<Rightarrow> bool" where
  "isVariable e = (case e of ParsedVariable _ _ \<Rightarrow> True | _ \<Rightarrow> False)"

text \<open>The nesting depth after a list of instructions: the opens minus the closes.\<close>

definition nesting :: "ParsedExpression list \<Rightarrow> int" where
  "nesting es = int (length (filter isLoopStart es)) - int (length (filter (\<lambda>e. e = LoopEnd) es))"

fun levelsFrom :: "int \<Rightarrow> ParsedExpression list \<Rightarrow> int list" where
  "levelsFrom l [] = []"
| "levelsFrom l (e # es) = (l + indentChange e) # levelsFrom (l + indentChange e) es"

definition nvars :: "(ParsedExpression \<times> int) list \<Rightarrow> nat" where
  "nvars ps = length (filter (\<lambda>p. isVariable (fst p)) ps)"

text \<open>
  The instructions \<open>formatViewExpr\<close> formats without an exception, given the level
  they are paired with.
\<close>

definition formattable :: "(string \<Rightarrow> error + string) \<Rightarrow> ParsedExpression \<times> int \<Rightarrow> bool" where
  "formattable acc p =
     (case p of (e, l) \<Rightarrow>
        (case e of
           ParsedVariable ex ty \<Rightarrow> - 1 \<le> l \<and> \<not> isl (acc ex)
         | LoopStart h \<Rightarrow> 0 \<le> l
         | LoopEnd \<Rightarrow> - 1 \<le> l
         | UnknownExpression v \<Rightarrow> False))"

text \<open>The text a run of \<open>processControllerView\<close> leaves in its output file.\<close>

definition synthesizedText :: "collaborators \<Rightarrow> string \<Rightarrow> string \<Rightarrow> state \<Rightarrow> string option" where
  "synthesizedText co controllerPath viewPath st =
     files (snd (processControllerView co controllerPath viewPath st))
       (outputFname co controllerPath viewPath)"

subsection \<open>The scope frame of the specification\<close>

text \<open>
  The scope frame as the repository's test of \<^verbatim>\<open>addScopeAccessors\<close> builds it
  (\<^verbatim>\<open>xpathDepth\<close>, \<^verbatim>\<open>closeSource\<close>, \<^verbatim>\<open>variables\<close>); \<^verbatim>\<open>closeSource\<close> is a constant
  function there and is kept as its text; a variable is its name and its type, as the
  locals of the specification's Scope Frame.
\<close>

record NgScope =
  xpathDepth :: nat
  closeSource :: string
  variables :: "(string \<times> string) list"

text \<open>
  The specification's Scope-Close, in its own words: it emits the closing text of the
  frame, at the indentation \<open>formatViewExpr\<close> gives a close.
\<close>

definition specScopeClose :: "NgScope \<Rightarrow> int \<Rightarrow> error + string" where
  "specScopeClose frame indentLevel =
     (case repeat '' '' ((1 + indentLevel) * 4) of
        Inl e \<Rightarrow> Inl e
      | Inr spaces \<Rightarrow> Inr (spaces @ closeSource frame))"

subsection \<open>The nodes a traversal visits\<close>

text \<open>
  The nodes in the order the two traversals visit them (a node, then its children from
  left to right), each with its parent.
\<close>

fun visits :: "Node option \<Rightarrow> Node \<Rightarrow> (Node option \<times> Node) list" where
  "visits parent (Node k gt t nm ex ar mo tp ch) =
     (parent, Node k gt t nm ex ar mo tp ch) #
     concat (map (visits (Some (Node k gt t nm ex ar mo tp ch))) ch)"

definition visited :: "Node \<Rightarrow> Node list" where
  "visited root = map snd (visits None root)"

text \<open>A non-exported interface named \<^verbatim>\<open>Scope\<close> directly under a module block.\<close>

definition isScopeInterface :: "Node option \<Rightarrow> Node \<Rightarrow> bool" where
  "isScopeInterface parent node \<longleftrightarrow>
     parentIsModuleBlock parent \<and> \<not> nodeIsExported node \<and>
     kind node = InterfaceDeclaration \<and> nameGetText (name node) = ''Scope''"

subsection \<open>Concrete inputs\<close>

definition exScope :: ControllerScopeInfo where
  "exScope = \<lparr>tsModuleName = Some ''app'', scopeInfo = Some ''interface Scope { n: number }'',
     scopeTypeParams = Some [], typeAliases = [], imports = [], importNames = [],
     nonExportedDeclarations = [], viewFragments = []\<rparr>"

definition exView :: "ParsedExpression list" where
  "exView = [ParsedVariable ''n'' ''number'']"

definition exLoopView :: "ParsedExpression list" where
  "exLoopView = [LoopStart ''for (const item of $scope.items) {'',
                 ParsedVariable ''item'' ''string'',
                 LoopEnd]"

definition exAddScopeAccessors :: "string \<Rightarrow> error + string" where
  "exAddScopeAccessors e = Inr (''$scope.'' @ e)"

definition exCollaborators :: "ParsedExpression list \<Rightarrow> collaborators" where
  "exCollaborators es =
     \<lparr>co_extractControllerScopeInfo = (\<lambda>fs p. Inr exScope),
      co_parseView = (\<lambda>fs p. Inr es),
      co_addScopeAccessors = exAddScopeAccessors,
      co_parse = (\<lambda>p. \<lparr>dir = ''.'', base_name = p\<rparr>)\<rparr>"

definition exState :: state where
  "exState = \<lparr>counter_i = 0, files = Map.empty, console = []\<rparr>"

definition leaf :: "SyntaxKind \<Rightarrow> string \<Rightarrow> Node" where
  "leaf k gt = Node k gt [] (Name Unknown [] []) None [] None None []"

definition branch :: "SyntaxKind \<Rightarrow> string \<Rightarrow> Name \<Rightarrow> Node list \<Rightarrow> Node" where
  "branch k gt nm ch = Node k gt [] nm None [] None None ch"

text \<open>\<^verbatim>\<open>f();\<close> as a source file: an expression statement holding a call.\<close>

definition exCallTree :: Node where
  "exCallTree =
     branch SourceFile ''f();'' (Name Unknown [] [])
       [branch ExpressionStatement ''f();'' (Name Unknown [] [])
          [leaf CallExpression ''f()'']]"

text \<open>\<^verbatim>\<open>module app { interface Other {} }\<close>: a module without a Scope interface.\<close>

definition exNoScopeTree :: Node where
  "exNoScopeTree =
     branch SourceFile ''module app { interface Other {} }'' (Name Unknown [] [])
       [branch ModuleDeclaration ''module app { interface Other {} }''
          (Name Identifier ''app'' ''app'')
          [branch ModuleBlock ''{ interface Other {} }'' (Name Unknown [] [])
             [branch InterfaceDeclaration ''interface Other {}''
                (Name Identifier ''Other'' ''Other'') []]]]"

definition exConnA :: ControllerViewConnector where
  "exConnA = \<lparr>cvc_interceptAstNode = CallExpression,
              getControllerView = (\<lambda>node p. [ControllerViewInfo ''A'' (getText node)])\<rparr>"

definition exConnB :: ControllerViewConnector where
  "exConnB = \<lparr>cvc_interceptAstNode = CallExpression,
              getControllerView = (\<lambda>node p. [ControllerViewInfo ''B'' (getText node)])\<rparr>"

section \<open>The expression parser and the scope-accessor rewriter\<close>

text \<open>
  \<^verbatim>\<open>view-ngexpression-parser\<close>, which defines \<^verbatim>\<open>addScopeAccessors\<close>, is not among the
  sources; its test is (seventeen assertions on \<^verbatim>\<open>addScopeAccessors(scopes, input)\<close>).
  This section models it from the specification (its sections 4.2 and 4.3), and the
  model is checked against every assertion of that test further down.
\<close>

subsection \<open>Tokens\<close>

text \<open>
  Modelled from the spec: the lexical level of the missing Expression Parser. The
  grammar of section 4.2 names identifiers, numeric and string literals,
  regular-expression literals, and the operators and brackets of member access, calls,
  unary, binary, logical and ternary expressions, array and object literals.
\<close>

datatype lexeme =
    TIdent string
  | TNum string
  | TStr string
  | TRegex string
  | TPunct string

definition SQ :: string where
  "SQ = [CHR 0x27]"

text \<open>Modelled from the spec: the character classes of the missing lexer.\<close>

definition isDigit :: "char \<Rightarrow> bool" where
  "isDigit c = (let n = (of_char c :: nat) in 48 \<le> n \<and> n \<le> 57)"

definition isIdentStart :: "char \<Rightarrow> bool" where
  "isIdentStart c =
     (let n = (of_char c :: nat)
      in (97 \<le> n \<and> n \<le> 122) \<or> (65 \<le> n \<and> n \<le> 90) \<or> n = 95 \<or> n = 36)"

definition isIdentPart :: "char \<Rightarrow> bool" where
  "isIdentPart c = (isIdentStart c \<or> isDigit c)"

definition isSpace :: "char \<Rightarrow> bool" where
  "isSpace c = (let n = (of_char c :: nat) in n = 32 \<or> n = 9 \<or> n = 10 \<or> n = 13)"

text \<open>
  Modelled from the spec: the extent of a string or regular-expression literal of the
  missing lexer. The length of a quoted body is the number of characters before the
  closing delimiter \<open>q\<close>, a backslash taking the next character with it; \<open>None\<close> when
  the literal is not closed.
\<close>

fun quotedLength :: "char \<Rightarrow> string \<Rightarrow> nat option" where
  "quotedLength q [] = None"
| "quotedLength q [c] = (if c = q then Some 0 else None)"
| "quotedLength q (c # d # ds) =
     (if c = q then Some 0
      else if c = CHR 0x5C then map_option (\<lambda>n. Suc (Suc n)) (quotedLength q ds)
      else map_option Suc (quotedLength q (d # ds)))"

text \<open>
  Modelled from the spec: the extent of a numeric literal of the missing lexer, as the
  number of characters after its first digit: digits, then a fraction when a dot is
  followed by a digit.
\<close>

definition numberLength :: "string \<Rightarrow> nat" where
  "numberLength cs =
     (let ip = length (takeWhile isDigit cs)
      in case drop ip cs of
           c # d # ds \<Rightarrow>
             if c = CHR ''.'' \<and> isDigit d
             then ip + 1 + length (takeWhile isDigit (d # ds))
             else ip
         | _ \<Rightarrow> ip)"

text \<open>
  Modelled from the spec: the operators and punctuation of the missing lexer, longest
  first. The bar is the filter-chain operator, which the lexer recognises and the
  expression grammar below does not accept (filter chains are outside this model).
\<close>

definition puncts3 :: "string list" where
  "puncts3 = [''==='', ''!=='']"

definition puncts2 :: "string list" where
  "puncts2 = [''=='', ''!='', ''<='', ''>='', ''&&'', ''||'']"

definition puncts1 :: "string list" where
  "puncts1 = [''+'', ''-'', ''*'', ''/'', ''%'', ''<'', ''>'', ''!'', ''?'', '':'', ''.'', '','',
              ''('', '')'', ''['', '']'', ''{'', ''}'', ''|'']"

definition punctLength :: "string \<Rightarrow> nat option" where
  "punctLength s =
     (if take 3 s \<in> set puncts3 then Some 3
      else if take 2 s \<in> set puncts2 then Some 2
      else if take 1 s \<in> set puncts1 then Some 1
      else None)"

definition closesOperand :: "string \<Rightarrow> bool" where
  "closesOperand p = (p \<in> set ['')'', '']'', ''}''])"

text \<open>
  Modelled from the spec: the missing lexer. \<open>opnd\<close> tells whether an operand is
  expected, which is where a slash opens a regular-expression literal instead of being
  the division operator. String literals keep their quotes, so that they are emitted
  as they were written. \<open>None\<close> is the spec's \<^verbatim>\<open>ExpressionSyntaxError\<close>.
\<close>

fun tokenize :: "bool \<Rightarrow> string \<Rightarrow> lexeme list option" where
  "tokenize opnd [] = Some []"
| "tokenize opnd (c # cs) =
     (if isSpace c then tokenize opnd cs
      else if isIdentStart c then
        (let n = length (takeWhile isIdentPart cs)
         in map_option ((#) (TIdent (c # take n cs))) (tokenize False (drop n cs)))
      else if isDigit c then
        (let n = numberLength cs
         in map_option ((#) (TNum (c # take n cs))) (tokenize False (drop n cs)))
      else if c = CHR 0x27 \<or> c = CHR 0x22 then
        (case quotedLength c cs of
           None \<Rightarrow> None
         | Some n \<Rightarrow>
             map_option ((#) (TStr (c # take n cs @ [c]))) (tokenize False (drop (Suc n) cs)))
      else if c = CHR ''/'' \<and> opnd then
        (case quotedLength c cs of
           None \<Rightarrow> None
         | Some n \<Rightarrow> map_option ((#) (TRegex (take n cs))) (tokenize False (drop (Suc n) cs)))
      else
        (case punctLength (c # cs) of
           None \<Rightarrow> None
         | Some n \<Rightarrow>
             map_option ((#) (TPunct (take n (c # cs))))
               (tokenize (\<not> closesOperand (take n (c # cs))) (drop (n - 1) cs))))"

subsection \<open>The parsed tree\<close>

text \<open>
  Modelled from the spec: the structured form the missing Expression Parser produces.
  An identifier in value position is an \<open>Ident\<close>; a property name (after a dot) is
  the string of a \<open>Member\<close>, an object-literal key the first component of an \<open>ObjLit\<close>
  entry; \<open>Lit\<close> holds a numeric, string, boolean or null literal as written (and
  \<^verbatim>\<open>undefined\<close>, which the repository's test expects to stay as it is).
\<close>

datatype ngexpr =
    Ident string
  | Lit string
  | RegexLit string
  | Member ngexpr string
  | Index ngexpr ngexpr
  | Call ngexpr "ngexpr list"
  | Unary string ngexpr
  | Binary string ngexpr ngexpr
  | Ternary ngexpr ngexpr ngexpr
  | ArrayLit "ngexpr list"
  | ObjLit "(string \<times> ngexpr) list"
  | Paren ngexpr

text \<open>Modelled from the spec: the literal words, binary operators by precedence, and prefix operators of the missing parser.\<close>

definition isKeywordLiteral :: "string \<Rightarrow> bool" where
  "isKeywordLiteral x = (x \<in> set [''true'', ''false'', ''null'', ''undefined''])"

definition binaryPrec :: "string \<Rightarrow> nat option" where
  "binaryPrec op =
     (if op = ''||'' then Some 1
      else if op = ''&&'' then Some 2
      else if op \<in> set [''=='', ''!='', ''==='', ''!==''] then Some 3
      else if op \<in> set [''<'', ''>'', ''<='', ''>=''] then Some 4
      else if op \<in> set [''+'', ''-''] then Some 5
      else if op \<in> set [''*'', ''/'', ''%''] then Some 6
      else None)"

definition isUnaryOp :: "string \<Rightarrow> bool" where
  "isUnaryOp op = (op \<in> set [''!'', ''-'', ''+''])"

text \<open>Modelled from the spec: the token-level helpers of the missing parser.\<close>

definition peekPunct :: "lexeme list \<Rightarrow> string option" where
  "peekPunct ts = (case ts of TPunct p # _ \<Rightarrow> Some p | _ \<Rightarrow> None)"

definition expectPunct :: "string \<Rightarrow> lexeme list \<Rightarrow> lexeme list option" where
  "expectPunct p ts = (if peekPunct ts = Some p then Some (tl ts) else None)"

definition peekBinaryOp :: "lexeme list \<Rightarrow> (string \<times> nat) option" where
  "peekBinaryOp ts =
     (case peekPunct ts of
        None \<Rightarrow> None
      | Some op \<Rightarrow> map_option (\<lambda>p. (op, p)) (binaryPrec op))"

definition pAtom :: "lexeme list \<Rightarrow> (ngexpr \<times> lexeme list) option" where
  "pAtom ts =
     (case ts of
        TIdent x # r \<Rightarrow> Some (if isKeywordLiteral x then Lit x else Ident x, r)
      | TNum x # r \<Rightarrow> Some (Lit x, r)
      | TStr x # r \<Rightarrow> Some (Lit x, r)
      | TRegex x # r \<Rightarrow> Some (RegexLit x, r)
      | _ \<Rightarrow> None)"

definition pKey :: "lexeme list \<Rightarrow> (string \<times> lexeme list) option" where
  "pKey ts =
     (case ts of
        TIdent k # r \<Rightarrow> Some (k, r)
      | TStr k # r \<Rightarrow> Some (k, r)
      | TNum k # r \<Rightarrow> Some (k, r)
      | _ \<Rightarrow> None)"

definition pName :: "lexeme list \<Rightarrow> (string \<times> lexeme list) option" where
  "pName ts = (case ts of TIdent x # r \<Rightarrow> Some (x, r) | _ \<Rightarrow> None)"

text \<open>
  Modelled from the spec: the nonterminals of the missing parser, as a record of
  parsers, so that each rule below can call the parsers of the next lower level of
  recursion depth.
\<close>

type_synonym 'a parser = "lexeme list \<Rightarrow> ('a \<times> lexeme list) option"

record grammar =
  gExpr :: "ngexpr parser"
  gBinary :: "nat \<Rightarrow> ngexpr parser"
  gBinaryRest :: "nat \<Rightarrow> ngexpr \<Rightarrow> ngexpr parser"
  gUnary :: "ngexpr parser"
  gPostfixRest :: "ngexpr \<Rightarrow> ngexpr parser"
  gPrimary :: "ngexpr parser"
  gItems :: "string \<Rightarrow> ngexpr list parser"
  gProps :: "(string \<times> ngexpr) list parser"

text \<open>Modelled from the spec: an expression is a binary expression, or a ternary one.\<close>

definition pExpr :: "grammar \<Rightarrow> ngexpr parser" where
  "pExpr g ts =
     (case gBinary g 1 ts of
        None \<Rightarrow> None
      | Some (c, r) \<Rightarrow>
          if peekPunct r = Some ''?'' then
            (case gExpr g (tl r) of
               None \<Rightarrow> None
             | Some (t, r1) \<Rightarrow>
                 (case expectPunct '':'' r1 of
                    None \<Rightarrow> None
                  | Some r2 \<Rightarrow>
                      (case gExpr g r2 of
                         None \<Rightarrow> None
                       | Some (e, r3) \<Rightarrow> Some (Ternary c t e, r3))))
          else Some (c, r))"

text \<open>
  Modelled from the spec: binary and logical operators, left-associative, by
  precedence climbing from \<open>minPrec\<close>.
\<close>

definition pBinary :: "grammar \<Rightarrow> nat \<Rightarrow> ngexpr parser" where
  "pBinary g minPrec ts =
     (case gUnary g ts of
        None \<Rightarrow> None
      | Some (l, r) \<Rightarrow> gBinaryRest g minPrec l r)"

definition pBinaryRest :: "grammar \<Rightarrow> nat \<Rightarrow> ngexpr \<Rightarrow> ngexpr parser" where
  "pBinaryRest g minPrec l ts =
     (case peekBinaryOp ts of
        None \<Rightarrow> Some (l, ts)
      | Some (op, p) \<Rightarrow>
          if minPrec \<le> p then
            (case gBinary g (Suc p) (tl ts) of
               None \<Rightarrow> None
             | Some (rhs, r) \<Rightarrow> gBinaryRest g minPrec (Binary op l rhs) r)
          else Some (l, ts))"

text \<open>Modelled from the spec: prefix operators, then a primary with its postfix chain.\<close>

definition pUnary :: "grammar \<Rightarrow> ngexpr parser" where
  "pUnary g ts =
     (case filterOpt isUnaryOp (peekPunct ts) of
        Some op \<Rightarrow>
          (case gUnary g (tl ts) of
             None \<Rightarrow> None
           | Some (e, r) \<Rightarrow> Some (Unary op e, r))
      | None \<Rightarrow>
          (case gPrimary g ts of
             None \<Rightarrow> None
           | Some (e, r) \<Rightarrow> gPostfixRest g e r))"

text \<open>
  Modelled from the spec: member access with a dot (the identifier after the dot is
  in property-name position) and with brackets, and function calls.
\<close>

definition pPostfixRest :: "grammar \<Rightarrow> ngexpr \<Rightarrow> ngexpr parser" where
  "pPostfixRest g e ts =
     (if peekPunct ts = Some ''.'' then
        (case pName (tl ts) of
           None \<Rightarrow> None
         | Some (x, r) \<Rightarrow> gPostfixRest g (Member e x) r)
      else if peekPunct ts = Some ''['' then
        (case gExpr g (tl ts) of
           None \<Rightarrow> None
         | Some (i, r) \<Rightarrow>
             (case expectPunct '']'' r of
                None \<Rightarrow> None
              | Some r1 \<Rightarrow> gPostfixRest g (Index e i) r1))
      else if peekPunct ts = Some ''('' then
        (case (if peekPunct (tl ts) = Some '')'' then Some ([], tl (tl ts))
               else gItems g '')'' (tl ts)) of
           None \<Rightarrow> None
         | Some (args, r) \<Rightarrow> gPostfixRest g (Call e args) r)
      else Some (e, ts))"

text \<open>
  Modelled from the spec: parenthesised expressions, array and object literals,
  identifiers and literals.
\<close>

definition pPrimary :: "grammar \<Rightarrow> ngexpr parser" where
  "pPrimary g ts =
     (if peekPunct ts = Some ''('' then
        (case gExpr g (tl ts) of
           None \<Rightarrow> None
         | Some (e, r) \<Rightarrow>
             (case expectPunct '')'' r of
                None \<Rightarrow> None
              | Some r1 \<Rightarrow> Some (Paren e, r1)))
      else if peekPunct ts = Some ''['' then
        (case (if peekPunct (tl ts) = Some '']'' then Some ([], tl (tl ts))
               else gItems g '']'' (tl ts)) of
           None \<Rightarrow> None
         | Some (es, r) \<Rightarrow> Some (ArrayLit es, r))
      else if peekPunct ts = Some ''{'' then
        (case (if peekPunct (tl ts) = Some ''}'' then Some ([], tl (tl ts))
               else gProps g (tl ts)) of
           None \<Rightarrow> None
         | Some (kvs, r) \<Rightarrow> Some (ObjLit kvs, r))
      else pAtom ts)"

text \<open>Modelled from the spec: a comma-separated list of expressions up to the closing bracket \<open>cl\<close>.\<close>

definition pItems :: "grammar \<Rightarrow> string \<Rightarrow> ngexpr list parser" where
  "pItems g cl ts =
     (case gExpr g ts of
        None \<Rightarrow> None
      | Some (e, r) \<Rightarrow>
          if peekPunct r = Some '','' then
            (case gItems g cl (tl r) of
               None \<Rightarrow> None
             | Some (es, r1) \<Rightarrow> Some (e # es, r1))
          else
            (case expectPunct cl r of
               None \<Rightarrow> None
             | Some r1 \<Rightarrow> Some ([e], r1)))"

text \<open>
  Modelled from the spec: the entries of an object literal; the key (an identifier, a
  string or a number) is kept as written and its value is an expression.
\<close>

definition pProps :: "grammar \<Rightarrow> (string \<times> ngexpr) list parser" where
  "pProps g ts =
     (case pKey ts of
        None \<Rightarrow> None
      | Some (k, r) \<Rightarrow>
          (case expectPunct '':'' r of
             None \<Rightarrow> None
           | Some r1 \<Rightarrow>
               (case gExpr g r1 of
                  None \<Rightarrow> None
                | Some (v, r2) \<Rightarrow>
                    if peekPunct r2 = Some '','' then
                      (case gProps g (tl r2) of
                         None \<Rightarrow> None
                       | Some (kvs, r3) \<Rightarrow> Some ((k, v) # kvs, r3))
                    else
                      (case expectPunct ''}'' r2 of
                         None \<Rightarrow> None
                       | Some r3 \<Rightarrow> Some ([(k, v)], r3)))))"

text \<open>
  Modelled from the spec: the parsers of recursion depth at most \<open>n\<close>. At depth 0
  every parser fails; the rules at depth \<open>n + 1\<close> call the parsers of depth \<open>n\<close>.
\<close>

primrec grammarAt :: "nat \<Rightarrow> grammar" where
  "grammarAt 0 =
     \<lparr>gExpr = (\<lambda>ts. None), gBinary = (\<lambda>p ts. None), gBinaryRest = (\<lambda>p l ts. None),
      gUnary = (\<lambda>ts. None), gPostfixRest = (\<lambda>e ts. None), gPrimary = (\<lambda>ts. None),
      gItems = (\<lambda>cl ts. None), gProps = (\<lambda>ts. None)\<rparr>"
| "grammarAt (Suc n) =
     (let g = grammarAt n
      in \<lparr>gExpr = pExpr g, gBinary = pBinary g, gBinaryRest = pBinaryRest g,
          gUnary = pUnary g, gPostfixRest = pPostfixRest g, gPrimary = pPrimary g,
          gItems = pItems g, gProps = pProps g\<rparr>)"

definition parseFuel :: "lexeme list \<Rightarrow> nat" where
  "parseFuel ts = 10 * Suc (length ts)"

text \<open>
  Modelled from the spec: the missing Expression Parser, from the text of an expression
  to its parsed tree. The whole text must be one expression; \<open>None\<close> is the spec's
  \<^verbatim>\<open>ExpressionSyntaxError\<close>. The recursion depth allowed is ten times the number of
  tokens (plus ten).
\<close>

definition parseNgExpression :: "string \<Rightarrow> ngexpr option" where
  "parseNgExpression s =
     (case tokenize True s of
        None \<Rightarrow> None
      | Some ts \<Rightarrow>
          (case gExpr (grammarAt (parseFuel ts)) ts of
             Some (e, []) \<Rightarrow> Some e
           | _ \<Rightarrow> None))"

subsection \<open>Rewriting\<close>

text \<open>
  Modelled from the spec: the syntactic role with which the missing parser tags every
  token: value position (the candidates for rewriting), property-name position (after a
  dot), object-literal key, literal text, the body of a regular-expression literal, and
  the operators and brackets.
\<close>

datatype role = ValuePosition | PropertyName | ObjectKey | LiteralText | RegexBody | Punctuation

text \<open>
  Modelled from the spec: the depth-first serialisation of the parsed tree into tagged
  tokens, which the missing Scope-Accessor Rewriter emits one by one. The spacing is
  the one the repository's test expects: binary and ternary operators between spaces,
  a space after the comma of a list and after the colon of an object-literal entry.
\<close>

fun tagged :: "ngexpr \<Rightarrow> (role \<times> string) list" where
  "tagged (Ident x) = [(ValuePosition, x)]"
| "tagged (Lit s) = [(LiteralText, s)]"
| "tagged (RegexLit b) = [(RegexBody, b)]"
| "tagged (Member e p) = tagged e @ [(Punctuation, ''.''), (PropertyName, p)]"
| "tagged (Index e i) = tagged e @ [(Punctuation, ''['')] @ tagged i @ [(Punctuation, '']'')]"
| "tagged (Call f as) =
     tagged f @ [(Punctuation, ''('')] @ join [(Punctuation, '', '')] (map tagged as) @
     [(Punctuation, '')'')]"
| "tagged (Unary op e) = (Punctuation, op) # tagged e"
| "tagged (Binary op a b) = tagged a @ [(Punctuation, '' '' @ op @ '' '')] @ tagged b"
| "tagged (Ternary c t e) =
     tagged c @ [(Punctuation, '' ? '')] @ tagged t @ [(Punctuation, '' : '')] @ tagged e"
| "tagged (ArrayLit es) =
     [(Punctuation, ''['')] @ join [(Punctuation, '', '')] (map tagged es) @ [(Punctuation, '']'')]"
| "tagged (ObjLit kvs) =
     [(Punctuation, ''{'')] @
     join [(Punctuation, '', '')]
       (map (\<lambda>kv. [(ObjectKey, fst kv), (Punctuation, '': '')] @ tagged (snd kv)) kvs) @
     [(Punctuation, ''}'')]"
| "tagged (Paren e) = [(Punctuation, ''('')] @ tagged e @ [(Punctuation, '')'')]"

text \<open>
  Modelled from the spec: the resolution of a free identifier against the scope stack
  of the missing rewriter. The stack has its innermost frame last; the search starts at
  the innermost frame and goes outward.
\<close>

definition frameDeclares :: "NgScope \<Rightarrow> string \<Rightarrow> bool" where
  "frameDeclares frame x = (x \<in> set (map fst (variables frame)))"

definition resolveLocal :: "NgScope list \<Rightarrow> string \<Rightarrow> NgScope option" where
  "resolveLocal stack x = find (\<lambda>frame. frameDeclares frame x) (rev stack)"

text \<open>
  Modelled from the spec: what the missing rewriter emits for one token. An identifier
  in value position that names a local of a frame is emitted unqualified, any other one
  qualified by the component accessor \<^verbatim>\<open>$scope\<close>; the body of a regular-expression
  literal is emitted in constructor form; every other token is emitted verbatim.
\<close>

fun emitToken :: "NgScope list \<Rightarrow> role \<times> string \<Rightarrow> string" where
  "emitToken stack (ValuePosition, x) =
     (case resolveLocal stack x of Some frame \<Rightarrow> x | None \<Rightarrow> ''$scope.'' @ x)"
| "emitToken stack (RegexBody, b) = ''new RegExp('' @ DQ @ b @ DQ @ '')''"
| "emitToken stack (r, s) = s"

text \<open>Modelled from the spec: the missing \<^verbatim>\<open>rewrite(expr, scopeStack)\<close> on a parsed tree.\<close>

definition rewrite :: "NgScope list \<Rightarrow> ngexpr \<Rightarrow> string" where
  "rewrite stack e = concat (map (emitToken stack) (tagged e))"

text \<open>
  Modelled from the spec: the missing \<^verbatim>\<open>addScopeAccessors(scopes, input)\<close>, the parser
  followed by the rewriter.
\<close>

definition addScopeAccessors :: "NgScope list \<Rightarrow> string \<Rightarrow> string option" where
  "addScopeAccessors stack input = map_option (rewrite stack) (parseNgExpression input)"

subsection \<open>Notions used to state the properties of the rewriter\<close>








text \<open>The scope stack of the repository's test: two frames without locals.\<close>

definition fakeScopeInfo :: "NgScope list" where
  "fakeScopeInfo = [\<lparr>xpathDepth = 1, closeSource = [], variables = []\<rparr>,
                    \<lparr>xpathDepth = 2, closeSource = [], variables = []\<rparr>]"

section \<open>Properties of the driver and of the controller parser\<close>

subsection \<open>Indentation levels\<close>

lemma lastOr0_snoc: "lastOr0 (xs @ [x]) = x"
  by (simp add: lastOr0_def)

lemma foldl_levels:
  "foldl (\<lambda>soFar cur. soFar @ [lastOr0 soFar + indentChange cur]) acc es
     = acc @ levelsFrom (lastOr0 acc) es"
  by (induction es arbitrary: acc) (simp_all add: lastOr0_snoc)

lemma viewLevels_levelsFrom: "viewLevels es = levelsFrom 0 es"
  using foldl_levels [of "[]" es] by (simp add: viewLevels_def lastOr0_def)

lemma length_levelsFrom: "length (levelsFrom l es) = length es"
  by (induction es arbitrary: l) simp_all

lemma nesting_Cons: "nesting (e # es) = indentChange e + nesting es"
  by (cases e) (simp_all add: nesting_def isLoopStart_def)

lemma nesting_Nil: "nesting [] = 0"
  by (simp add: nesting_def)

lemma levelsFrom_nth:
  "k < length es \<Longrightarrow> levelsFrom l es ! k = l + nesting (take (Suc k) es)"
proof (induction es arbitrary: l k)
  case Nil
  then show ?case by simp
next
  case (Cons e es)
  show ?case
  proof (cases k)
    case 0
    then show ?thesis by (simp add: nesting_Cons nesting_Nil)
  next
    case (Suc j)
    with Cons show ?thesis by (simp add: nesting_Cons)
  qed
qed

lemma nesting_take_Suc:
  "k < length es \<Longrightarrow> nesting (take (Suc k) es) = nesting (take k es) + indentChange (es ! k)"
proof (induction es arbitrary: k)
  case Nil
  then show ?case by simp
next
  case (Cons e es)
  then show ?case by (cases k) (simp_all add: nesting_Cons nesting_Nil)
qed

lemma viewLevels_nth:
  "k < length es \<Longrightarrow> viewLevels es ! k = nesting (take k es) + indentChange (es ! k)"
  by (simp add: viewLevels_levelsFrom levelsFrom_nth nesting_take_Suc)

lemma length_viewLevels: "length (viewLevels es) = length es"
  by (simp add: viewLevels_levelsFrom length_levelsFrom)

lemma formatViewExpr_counter:
  "formatViewExpr acc p i = (Inr l, i') \<Longrightarrow> i' = i + (if isVariable (fst p) then 1 else 0)"
  by (cases p) (auto simp: formatViewExpr_def isVariable_def
        split: sum.splits ParsedExpression.splits)

lemma formatAll_length:
  "formatAll acc ps i = (Inr ls, i') \<Longrightarrow> length ls = length ps"
proof (induction ps arbitrary: i ls)
  case Nil
  then show ?case by simp
next
  case (Cons p ps)
  then show ?case by (auto split: prod.splits sum.splits)
qed

lemma formatAll_nth:
  "formatAll acc ps i = (Inr ls, i') \<Longrightarrow> k < length ps \<Longrightarrow>
     formatViewExpr acc (ps ! k) (i + nvars (take k ps)) =
       (Inr (ls ! k), i + nvars (take (Suc k) ps))"
proof (induction ps arbitrary: i ls k)
  case Nil
  then show ?case by simp
next
  case (Cons p ps)
  from Cons.prems(1) obtain l j ls' where
    h: "formatViewExpr acc p i = (Inr l, j)" "formatAll acc ps j = (Inr ls', i')" "ls = l # ls'"
    by (auto split: prod.splits sum.splits)
  from h(1) have j: "j = i + (if isVariable (fst p) then 1 else 0)"
    by (rule formatViewExpr_counter)
  show ?case
  proof (cases k)
    case 0
    with h j show ?thesis by (simp add: nvars_def)
  next
    case (Suc m)
    with Cons.prems(2) have "m < length ps" by simp
    from Cons.IH [OF h(2) this] Suc h(3) j show ?thesis
      by (cases "isVariable (fst p)") (simp_all add: nvars_def)
  qed
qed






lemma concat_replicate_space: "concat (replicate n '' '') = replicate n CHR '' ''"
  by (induction n) simp_all

lemma repeat_Inr:
  "repeat '' '' c = Inr s \<longleftrightarrow> 0 \<le> c \<and> s = replicate (nat c) CHR '' ''"
  by (auto simp: repeat_def concat_replicate_space)

lemma formatViewExpr_LoopStart:
  "formatViewExpr acc (LoopStart h, l) i = (Inr x, i') \<Longrightarrow>
     0 \<le> l \<and> x = replicate (nat (4 * l)) CHR '' '' @ h"
  by (auto simp: formatViewExpr_def repeat_def concat_replicate_space mult.commute
        split: sum.splits if_splits)

lemma formatViewExpr_LoopEnd:
  "formatViewExpr acc (LoopEnd, l) i = (Inr x, i') \<Longrightarrow>
     - 1 \<le> l \<and> x = replicate (nat (4 * (l + 1))) CHR '' '' @ ''}''"
  by (auto simp: formatViewExpr_def repeat_def concat_replicate_space mult.commute add.commute
        split: sum.splits if_splits)

lemma formatViewExpr_ParsedVariable:
  "formatViewExpr acc (ParsedVariable ex ty, l) i = (Inr x, i') \<Longrightarrow>
     - 1 \<le> l \<and> (\<exists>a. acc ex = Inr a \<and>
       x = replicate (nat (4 * (l + 1))) CHR '' '' @ ''const ___x'' @ show_nat i @ '': '' @ ty @
           '' = '' @ a @ '';'')"
  by (auto simp: formatViewExpr_def repeat_def concat_replicate_space mult.commute add.commute
        split: sum.splits if_splits)

lemma nvars_zip:
  "length ls = length es \<Longrightarrow> nvars (take k (zip es ls)) = length (filter isVariable (take k es))"
proof (induction es arbitrary: ls k)
  case Nil
  then show ?case by (simp add: nvars_def)
next
  case (Cons e es)
  then obtain l ls' where "ls = l # ls'" by (cases ls) auto
  with Cons show ?case by (cases k) (auto simp: nvars_def)
qed

lemma formatViewExpr_formattable:
  "(\<exists>x i'. formatViewExpr acc p i = (Inr x, i')) \<longleftrightarrow> formattable acc p"
proof (cases p)
  case (Pair e l)
  show ?thesis
  proof (cases e)
    case (ParsedVariable ex ty)
    with Pair show ?thesis
      by (cases "acc ex") (auto simp: formatViewExpr_def formattable_def repeat_def)
  next
    case (LoopStart h)
    with Pair show ?thesis
      by (auto simp: formatViewExpr_def formattable_def repeat_def)
  next
    case LoopEnd
    with Pair show ?thesis
      by (auto simp: formatViewExpr_def formattable_def repeat_def)
  next
    case (UnknownExpression v)
    with Pair show ?thesis
      by (auto simp: formatViewExpr_def formattable_def repeat_def)
  qed
qed

lemma formatAll_formattable:
  "(\<exists>ls i'. formatAll acc ps i = (Inr ls, i')) \<longleftrightarrow> list_all (formattable acc) ps"
proof (induction ps arbitrary: i)
  case Nil
  then show ?case by simp
next
  case (Cons p ps)
  show ?case
  proof
    assume "\<exists>ls i'. formatAll acc (p # ps) i = (Inr ls, i')"
    then obtain l j ls' i' where
      h: "formatViewExpr acc p i = (Inr l, j)" "formatAll acc ps j = (Inr ls', i')"
      by (auto split: prod.splits sum.splits)
    from h(1) have "formattable acc p" using formatViewExpr_formattable by blast
    moreover from h(2) have "list_all (formattable acc) ps" using Cons.IH by blast
    ultimately show "list_all (formattable acc) (p # ps)" by simp
  next
    assume a: "list_all (formattable acc) (p # ps)"
    then obtain l j where h1: "formatViewExpr acc p i = (Inr l, j)"
      using formatViewExpr_formattable [of acc p i] by auto
    from a obtain ls' i' where h2: "formatAll acc ps j = (Inr ls', i')"
      using Cons.IH [of j] by auto
    from h1 h2 show "\<exists>ls i'. formatAll acc (p # ps) i = (Inr ls, i')" by simp
  qed
qed

text \<open>What each instruction of a successfully formatted stream is turned into.\<close>

lemma formatted_line:
  assumes ok: "formatAll acc (zip es (viewLevels es)) i = (Inr ls, i')"
    and k: "k < length es"
  shows "formatViewExpr acc (es ! k, nesting (take k es) + indentChange (es ! k))
           (i + length (filter isVariable (take k es))) =
         (Inr (ls ! k), i + length (filter isVariable (take (Suc k) es)))"
proof -
  have len: "length (viewLevels es) = length es" by (rule length_viewLevels)
  from k len have k': "k < length (zip es (viewLevels es))" by simp
  from formatAll_nth [OF ok k'] k len show ?thesis
    by (simp add: nvars_zip viewLevels_nth)
qed

lemma formatted_LoopStart:
  assumes ok: "formatAll acc (zip es (viewLevels es)) i = (Inr ls, i')"
    and k: "k < length es" and e: "es ! k = LoopStart h"
  shows "0 \<le> nesting (take k es) + 1 \<and>
         ls ! k = replicate (nat (4 * (nesting (take k es) + 1))) CHR '' '' @ h"
proof -
  from formatted_line [OF ok k] e
  have "formatViewExpr acc (LoopStart h, nesting (take k es) + 1)
          (i + length (filter isVariable (take k es))) =
        (Inr (ls ! k), i + length (filter isVariable (take (Suc k) es)))"
    by simp
  from formatViewExpr_LoopStart [OF this] show ?thesis by simp
qed

lemma formatted_LoopEnd:
  assumes ok: "formatAll acc (zip es (viewLevels es)) i = (Inr ls, i')"
    and k: "k < length es" and e: "es ! k = LoopEnd"
  shows "0 \<le> nesting (take k es) \<and>
         ls ! k = replicate (nat (4 * nesting (take k es))) CHR '' '' @ ''}''"
proof -
  from formatted_line [OF ok k] e
  have "formatViewExpr acc (LoopEnd, nesting (take k es) - 1)
          (i + length (filter isVariable (take k es))) =
        (Inr (ls ! k), i + length (filter isVariable (take (Suc k) es)))"
    by simp
  from formatViewExpr_LoopEnd [OF this] show ?thesis by simp
qed

lemma formatted_ParsedVariable:
  assumes ok: "formatAll acc (zip es (viewLevels es)) i = (Inr ls, i')"
    and k: "k < length es" and e: "es ! k = ParsedVariable ex ty"
  shows "0 \<le> nesting (take k es) + 1 \<and> (\<exists>a. acc ex = Inr a \<and>
         ls ! k = replicate (nat (4 * (nesting (take k es) + 1))) CHR '' '' @ ''const ___x'' @
           show_nat (i + length (filter isVariable (take k es))) @ '': '' @ ty @
           '' = '' @ a @ '';'')"
proof -
  from formatted_line [OF ok k] e
  have "formatViewExpr acc (ParsedVariable ex ty, nesting (take k es))
          (i + length (filter isVariable (take k es))) =
        (Inr (ls ! k), i + length (filter isVariable (take (Suc k) es)))"
    by simp
  from formatViewExpr_ParsedVariable [OF this] show ?thesis by simp
qed

subsection \<open>Runs on the concrete inputs\<close>

lemma show_nat_0: "show_nat 0 = ''0''"
  by (simp add: show_nat.simps digit_def)



lemma viewLevels_exView: "viewLevels exView = [0]"
  by (simp add: viewLevels_def exView_def lastOr0_def)

lemma formatAll_exView_0:
  "formatAll exAddScopeAccessors (zip exView (viewLevels exView)) 0 =
     (Inr [''    const ___x0: number = $scope.n;''], 1)"
  by (simp add: viewLevels_exView) (simp add: exView_def formatViewExpr_def repeat_def show_nat_0 exAddScopeAccessors_def eval_nat_numeral)





lemma viewLevels_exLoopView: "viewLevels exLoopView = [1, 1, 0]"
  by (simp add: viewLevels_def exLoopView_def lastOr0_def)

lemma formatAll_exLoopView:
  "formatAll exAddScopeAccessors (zip exLoopView (viewLevels exLoopView)) 0 =
     (Inr [''    for (const item of $scope.items) {'',
           ''        const ___x0: string = $scope.item;'',
           ''    }''], 1)"
  by (simp add: viewLevels_exLoopView)
     (simp add: exLoopView_def formatViewExpr_def repeat_def show_nat_0 exAddScopeAccessors_def
        eval_nat_numeral)

lemma processControllerView_run:
  assumes sc: "co_extractControllerScopeInfo co (files st) c = Inr sc" "scopeContents sc = Some sct"
    and es: "co_parseView co (files st) v = Inr es"
  shows "processControllerView co c v st =
     (case formatAll (co_addScopeAccessors co) (zip es (viewLevels es)) (counter_i st) of
        (Inl e, i') \<Rightarrow>
          (Inl e, st\<lparr>console := console st @ [''Processing view controller '' @ c @ '' '' @ v],
                     counter_i := i'\<rparr>)
      | (Inr ls, i') \<Rightarrow>
          (Inr (), st\<lparr>console := console st @ [''Processing view controller '' @ c @ '' '' @ v],
                     counter_i := i',
                     files := (files st)(outputFname co c v \<mapsto> synthesized sc sct ls)\<rparr>))"
  using sc es by (simp add: processControllerView_def Let_def split: prod.splits sum.splits)

subsection \<open>Fresh names\<close>




subsection \<open>The synthesized unit\<close>

text \<open>
  Claim C6: when the controller has a scope block and the view is parsed and formatted,
  the file written holds the controller's imports, type aliases, interfaces and scope
  contents, then the formatted instruction stream inside
  \<^verbatim>\<open>function ___f($scope: Scope) { ... }\<close>, the whole enclosed in
  \<^verbatim>\<open>module <name> { ... }\<close> when the controller has a TS module.
\<close>

theorem synthesized_function_wrapper:
  assumes sc: "co_extractControllerScopeInfo co (files st) c = Inr sc" "scopeContents sc = Some sct"
    and es: "co_parseView co (files st) v = Inr es"
    and ok: "formatAll (co_addScopeAccessors co) (zip es (viewLevels es)) (counter_i st) = (Inr ls, i')"
  shows "\<exists>st'. processControllerView co c v st = (Inr (), st') \<and>
           files st' = (files st)
             (outputFname co c v \<mapsto>
                (let body = join NL (imports sc) @ NL @ join NL (typeAliases sc) @ NL @
                            join NL (interfaces sc) @ NL @ sct @ NL @ NL @
                            ''function ___f($scope: Scope) {'' @ NL @ join NL ls @ NL @ ''}'' @ NL
                 in case tsModuleName sc of
                      None \<Rightarrow> body @ NL
                    | Some n \<Rightarrow> ''module '' @ n @ '' {'' @ NL @ body @ NL @ ''}'' @ NL))"
  using processControllerView_run [OF sc es] ok
  by (simp add: synthesized_def moduleWrap_def Let_def split: option.splits)

theorem synthesized_function_wrapper_witness:
  "co_extractControllerScopeInfo (exCollaborators exView) (files exState) ''c'' = Inr exScope \<and>
   scopeContents exScope = Some ''interface Scope { n: number }'' \<and>
   co_parseView (exCollaborators exView) (files exState) ''v'' = Inr exView \<and>
   formatAll (co_addScopeAccessors (exCollaborators exView)) (zip exView (viewLevels exView))
     (counter_i exState) = (Inr [''    const ___x0: number = $scope.n;''], 1) \<and>
   synthesizedText (exCollaborators exView) ''c'' ''v'' exState =
     Some (''module app {'' @ NL @ NL @ NL @ NL @ ''interface Scope { n: number }'' @ NL @ NL @
           ''function ___f($scope: Scope) {'' @ NL @
           ''    const ___x0: number = $scope.n;'' @ NL @ ''}'' @ NL @ NL @ ''}'' @ NL)"
proof -
  let ?co = "exCollaborators exView"
  have h1: "co_extractControllerScopeInfo ?co (files exState) ''c'' = Inr exScope"
    by (simp add: exCollaborators_def)
  have h2: "scopeContents exScope = Some ''interface Scope { n: number }''"
    by (simp add: scopeContents_def exScope_def)
  have h3: "co_parseView ?co (files exState) ''v'' = Inr exView"
    by (simp add: exCollaborators_def)
  have h4: "formatAll (co_addScopeAccessors ?co) (zip exView (viewLevels exView))
     (counter_i exState) = (Inr [''    const ___x0: number = $scope.n;''], 1)"
    using formatAll_exView_0 by (simp add: exCollaborators_def exState_def)
  from synthesized_function_wrapper [OF h1 h2 h3 h4]
  have "synthesizedText ?co ''c'' ''v'' exState =
     Some (''module app {'' @ NL @ NL @ NL @ NL @ ''interface Scope { n: number }'' @ NL @ NL @
           ''function ___f($scope: Scope) {'' @ NL @
           ''    const ___x0: number = $scope.n;'' @ NL @ ''}'' @ NL @ NL @ ''}'' @ NL)"
    by (auto simp: synthesizedText_def exScope_def interfaces_def)
  with h1 h2 h3 h4 show ?thesis by blast
qed

subsection \<open>Scope-Open and Scope-Close\<close>

text \<open>
  Claim C9, as stated: a Scope-Close emits the closing text of its frame. It fails:
  \<open>LoopEnd\<close> carries no frame and \<open>formatViewExpr\<close> writes the fixed text \<^verbatim>\<open>}\<close>,
  also where the frame's closing text is another one (the empty text of the frames in
  the repository's own test).
\<close>

theorem closing_text_counterexample:
  "fst (formatViewExpr exAddScopeAccessors (LoopEnd, 0) 0) \<noteq>
   specScopeClose \<lparr>xpathDepth = 1, closeSource = [], variables = []\<rparr> 0"
  by (simp add: formatViewExpr_def specScopeClose_def repeat_def)

text \<open>
  Claim C9, amended: as the claim, with the fixed text \<^verbatim>\<open>}\<close> in the place of the closing
  text of the frame. In every instruction stream that is formatted, with \<open>d\<close> the nesting
  depth before an instruction (the opens minus the closes before it): a Scope-Open is
  emitted as \<open>4 (d + 1)\<close> spaces and its header text verbatim, and the depth after it is
  \<open>d + 1\<close>; a Variable is emitted after \<open>4 (d + 1)\<close> spaces and leaves the depth as it
  is; a Scope-Close is emitted as \<open>4 d\<close> spaces and the fixed text \<^verbatim>\<open>}\<close>, and the depth
  after it is \<open>d - 1\<close>. This holds of every open and every close, matched or not. Hence
  a close that brings the nesting back to the depth before an open is indented exactly as
  that open, and a Variable between them, at the depth of the loop body, is indented four
  spaces (one level) deeper than the header.
\<close>

theorem scope_indentation:
  assumes ok: "formatAll acc (zip es (viewLevels es)) i = (Inr ls, i')"
  shows "length ls = length es \<and>
   (\<forall>k<length es.
      (\<forall>h. es ! k = LoopStart h \<longrightarrow>
         (\<exists>n. int n = 4 * (nesting (take k es) + 1) \<and> ls ! k = replicate n CHR '' '' @ h) \<and>
         nesting (take (Suc k) es) = nesting (take k es) + 1) \<and>
      (es ! k = LoopEnd \<longrightarrow>
         (\<exists>n. int n = 4 * nesting (take k es) \<and> ls ! k = replicate n CHR '' '' @ ''}'') \<and>
         nesting (take (Suc k) es) = nesting (take k es) - 1) \<and>
      (\<forall>ex ty. es ! k = ParsedVariable ex ty \<longrightarrow>
         (\<exists>n a. int n = 4 * (nesting (take k es) + 1) \<and> acc ex = Inr a \<and>
            ls ! k = replicate n CHR '' '' @ ''const ___x'' @
              show_nat (i + length (filter isVariable (take k es))) @ '': '' @ ty @
              '' = '' @ a @ '';'') \<and>
         nesting (take (Suc k) es) = nesting (take k es))) \<and>
   (\<forall>j k h. j < k \<and> k < length es \<and> es ! j = LoopStart h \<and> es ! k = LoopEnd \<and>
        nesting (take (Suc k) es) = nesting (take j es) \<longrightarrow>
      (\<exists>n. int n = 4 * (nesting (take j es) + 1) \<and>
           ls ! j = replicate n CHR '' '' @ h \<and>
           ls ! k = replicate n CHR '' '' @ ''}'' \<and>
           (\<forall>m ex ty. j < m \<and> m < k \<and> es ! m = ParsedVariable ex ty \<and>
               nesting (take m es) = nesting (take (Suc j) es) \<longrightarrow>
              (\<exists>a. acc ex = Inr a \<and>
                 ls ! m = replicate (n + 4) CHR '' '' @ ''const ___x'' @
                   show_nat (i + length (filter isVariable (take m es))) @ '': '' @ ty @
                   '' = '' @ a @ '';''))))"
proof (intro conjI allI impI)
  show "length ls = length es"
    using formatAll_length [OF ok] by (simp add: length_viewLevels)
next
  fix k h
  assume k: "k < length es" and e: "es ! k = LoopStart h"
  from formatted_LoopStart [OF ok k e]
  have "int (nat (4 * (nesting (take k es) + 1))) = 4 * (nesting (take k es) + 1) \<and>
        ls ! k = replicate (nat (4 * (nesting (take k es) + 1))) CHR '' '' @ h"
    by simp
  then show "\<exists>n. int n = 4 * (nesting (take k es) + 1) \<and> ls ! k = replicate n CHR '' '' @ h"
    by blast
  show "nesting (take (Suc k) es) = nesting (take k es) + 1"
    using nesting_take_Suc [OF k] e by simp
next
  fix k
  assume k: "k < length es" and e: "es ! k = LoopEnd"
  from formatted_LoopEnd [OF ok k e]
  have "int (nat (4 * nesting (take k es))) = 4 * nesting (take k es) \<and>
        ls ! k = replicate (nat (4 * nesting (take k es))) CHR '' '' @ ''}''"
    by simp
  then show "\<exists>n. int n = 4 * nesting (take k es) \<and> ls ! k = replicate n CHR '' '' @ ''}''"
    by blast
  show "nesting (take (Suc k) es) = nesting (take k es) - 1"
    using nesting_take_Suc [OF k] e by simp
next
  fix k ex ty
  assume k: "k < length es" and e: "es ! k = ParsedVariable ex ty"
  from formatted_ParsedVariable [OF ok k e] obtain a where
    "int (nat (4 * (nesting (take k es) + 1))) = 4 * (nesting (take k es) + 1)"
    "acc ex = Inr a"
    "ls ! k = replicate (nat (4 * (nesting (take k es) + 1))) CHR '' '' @ ''const ___x'' @
       show_nat (i + length (filter isVariable (take k es))) @ '': '' @ ty @ '' = '' @ a @ '';''"
    by auto
  then show "\<exists>n a. int n = 4 * (nesting (take k es) + 1) \<and> acc ex = Inr a \<and>
            ls ! k = replicate n CHR '' '' @ ''const ___x'' @
              show_nat (i + length (filter isVariable (take k es))) @ '': '' @ ty @
              '' = '' @ a @ '';''"
    by blast
  show "nesting (take (Suc k) es) = nesting (take k es)"
    using nesting_take_Suc [OF k] e by simp
next
  fix j k h
  assume asm: "j < k \<and> k < length es \<and> es ! j = LoopStart h \<and> es ! k = LoopEnd \<and>
    nesting (take (Suc k) es) = nesting (take j es)"
  then have jk: "j < k" "k < length es"
    and op: "es ! j = LoopStart h" and cl: "es ! k = LoopEnd"
    and matching: "nesting (take (Suc k) es) = nesting (take j es)"
    by simp_all
  let ?d = "nesting (take j es)"
  from jk have j: "j < length es" by simp
  have dj: "nesting (take (Suc j) es) = ?d + 1"
    using nesting_take_Suc [OF j] op by simp
  have dk: "nesting (take k es) = ?d + 1"
    using nesting_take_Suc [OF jk(2)] cl matching by simp
  from formatted_LoopStart [OF ok j op]
  have a: "0 \<le> ?d + 1" "ls ! j = replicate (nat (4 * (?d + 1))) CHR '' '' @ h" by simp_all
  from a(1) have n: "int (nat (4 * (?d + 1))) = 4 * (?d + 1)" by simp
  from formatted_LoopEnd [OF ok jk(2) cl] dk
  have b: "ls ! k = replicate (nat (4 * (?d + 1))) CHR '' '' @ ''}''" by simp
  have c: "\<exists>a. acc ex = Inr a \<and>
        ls ! m = replicate (nat (4 * (?d + 1)) + 4) CHR '' '' @ ''const ___x'' @
          show_nat (i + length (filter isVariable (take m es))) @ '': '' @ ty @
          '' = '' @ a @ '';''"
    if m: "j < m" "m < k" "es ! m = ParsedVariable ex ty"
       "nesting (take m es) = nesting (take (Suc j) es)" for m ex ty
  proof -
    from m jk have ml: "m < length es" by simp
    have eq: "nat (4 * (?d + 1 + 1)) = nat (4 * (?d + 1)) + 4" using a(1) by simp
    from formatted_ParsedVariable [OF ok ml m(3)] m(4) dj eq show ?thesis by simp
  qed
  from n a(2) b c show "\<exists>n. int n = 4 * (?d + 1) \<and>
           ls ! j = replicate n CHR '' '' @ h \<and>
           ls ! k = replicate n CHR '' '' @ ''}'' \<and>
           (\<forall>m ex ty. j < m \<and> m < k \<and> es ! m = ParsedVariable ex ty \<and>
               nesting (take m es) = nesting (take (Suc j) es) \<longrightarrow>
              (\<exists>a. acc ex = Inr a \<and>
                 ls ! m = replicate (n + 4) CHR '' '' @ ''const ___x'' @
                   show_nat (i + length (filter isVariable (take m es))) @ '': '' @ ty @
                   '' = '' @ a @ '';''))"
    by blast
qed

theorem scope_indentation_witness:
  "formatAll exAddScopeAccessors (zip exLoopView (viewLevels exLoopView)) 0 =
     (Inr [''    for (const item of $scope.items) {'',
           ''        const ___x0: string = $scope.item;'',
           ''    }''], 1) \<and>
   exLoopView ! 0 = LoopStart ''for (const item of $scope.items) {'' \<and>
   exLoopView ! 1 = ParsedVariable ''item'' ''string'' \<and>
   exLoopView ! 2 = LoopEnd \<and>
   nesting (take 0 exLoopView) = 0 \<and>
   nesting (take 1 exLoopView) = 1 \<and>
   nesting (take 2 exLoopView) = 1 \<and>
   nesting (take 3 exLoopView) = 0 \<and>
   (\<exists>n. int n = 4 * (nesting (take 0 exLoopView) + 1) \<and>
        [''    for (const item of $scope.items) {'',
          ''        const ___x0: string = $scope.item;'',
          ''    }''] ! 0 = replicate n CHR '' '' @ ''for (const item of $scope.items) {'') \<and>
   (\<exists>n. int n = 4 * nesting (take 2 exLoopView) \<and>
        [''    for (const item of $scope.items) {'',
          ''        const ___x0: string = $scope.item;'',
          ''    }''] ! 2 = replicate n CHR '' '' @ ''}'')"
proof -
  let ?ls = "[''    for (const item of $scope.items) {'',
              ''        const ___x0: string = $scope.item;'',
              ''    }'']"
  have h1: "formatAll exAddScopeAccessors (zip exLoopView (viewLevels exLoopView)) 0 =
     (Inr ?ls, 1)"
    by (rule formatAll_exLoopView)
  have h3: "0 < length exLoopView" "2 < length exLoopView" by (simp_all add: exLoopView_def)
  have h4: "exLoopView ! 0 = LoopStart ''for (const item of $scope.items) {''"
    by (simp add: exLoopView_def)
  have h5: "exLoopView ! 2 = LoopEnd" by (simp add: exLoopView_def)
  have h6: "exLoopView ! 1 = ParsedVariable ''item'' ''string''" by (simp add: exLoopView_def)
  have h7: "nesting (take 0 exLoopView) = 0" "nesting (take 1 exLoopView) = 1"
    "nesting (take 2 exLoopView) = 1" "nesting (take 3 exLoopView) = 0"
    by (simp_all add: exLoopView_def nesting_def isLoopStart_def eval_nat_numeral)
  note inst = scope_indentation [OF h1]
  from inst h3(1) h4
  have a: "\<exists>n. int n = 4 * (nesting (take 0 exLoopView) + 1) \<and>
             ?ls ! 0 = replicate n CHR '' '' @ ''for (const item of $scope.items) {''"
    by blast
  from inst h3(2) h5
  have b: "\<exists>n. int n = 4 * nesting (take 2 exLoopView) \<and>
             ?ls ! 2 = replicate n CHR '' '' @ ''}''"
    by blast
  from h1 h4 h5 h6 h7 a b show ?thesis by blast
qed

subsection \<open>Traversals of the syntax tree\<close>

lemma fold_concat_map:
  "fold f (concat (map g xs)) s = fold (\<lambda>x. fold f (g x)) xs s"
  by (induction xs arbitrary: s) simp_all

lemma nodeExtractModuleOpenAngularModule_visits:
  "nodeExtractModuleOpenAngularModule fName w cs ms node vi =
     fold (\<lambda>pn. moduleOpenVisit fName w cs ms (snd pn)) (visits parent node) vi"
proof (induction node arbitrary: vi parent)
  case (Node k gt t nm ex ar mo tp ch)
  have "fold (nodeExtractModuleOpenAngularModule fName w cs ms) ch s =
        fold (\<lambda>x. fold (\<lambda>pn. moduleOpenVisit fName w cs ms (snd pn)) (visits p x)) ch s"
    (is "fold ?F ch s = fold ?G ch s") for s p
  proof (rule fold_cong [OF refl refl])
    fix x assume "x \<in> set ch"
    then show "?F x = ?G x" by (intro ext) (simp add: Node.IH(5))
  qed
  then show ?case by (simp add: fold_concat_map)
qed

lemma nodeExtractScopeInterface_visits:
  "nodeExtractScopeInterface exts parent node s =
     fold (\<lambda>pn. scopeInterfaceVisit exts (fst pn) (snd pn)) (visits parent node) s"
proof (induction node arbitrary: s parent)
  case (Node k gt t nm ex ar mo tp ch)
  have "fold (nodeExtractScopeInterface exts p) ch s =
        fold (\<lambda>x. fold (\<lambda>pn. scopeInterfaceVisit exts (fst pn) (snd pn)) (visits p x)) ch s"
    (is "fold ?F ch s = fold ?G ch s") for s p
  proof (rule fold_cong [OF refl refl])
    fix x assume "x \<in> set ch"
    then show "?F x = ?G x" by (intro ext) (simp add: Node.IH(5))
  qed
  then show ?case by (simp add: fold_concat_map)
qed

lemma moduleOpenVisit_controllerViewInfos:
  "controllerViewInfos (moduleOpenVisit fName w cs ms node vi) =
     controllerViewInfos vi @
     concat (map (\<lambda>conn. getControllerView conn node w)
               (filter (\<lambda>conn. cvc_interceptAstNode conn = kind node) cs))"
  by (simp add: moduleOpenVisit_def Let_def)

lemma moduleOpenVisit_modelViewInfos:
  "modelViewInfos (moduleOpenVisit fName w cs ms node vi) =
     modelViewInfos vi @
     concat (map (\<lambda>conn. getModelView conn fName node w)
               (filter (\<lambda>conn. mvc_interceptAstNode conn = kind node) ms))"
  by (simp add: moduleOpenVisit_def Let_def)

lemma fold_controllerViewInfos:
  "controllerViewInfos (fold (\<lambda>pn. moduleOpenVisit fName w cs ms (snd pn)) pns vi) =
     controllerViewInfos vi @
     concat (map (\<lambda>node. concat (map (\<lambda>conn. getControllerView conn node w)
                     (filter (\<lambda>conn. cvc_interceptAstNode conn = kind node) cs)))
               (map snd pns))"
  by (induction pns arbitrary: vi) (simp_all add: moduleOpenVisit_controllerViewInfos)

lemma fold_modelViewInfos:
  "modelViewInfos (fold (\<lambda>pn. moduleOpenVisit fName w cs ms (snd pn)) pns vi) =
     modelViewInfos vi @
     concat (map (\<lambda>node. concat (map (\<lambda>conn. getModelView conn fName node w)
                     (filter (\<lambda>conn. mvc_interceptAstNode conn = kind node) ms)))
               (map snd pns))"
  by (induction pns arbitrary: vi) (simp_all add: moduleOpenVisit_modelViewInfos)

lemma scopeInterfaceVisit_viewFragments:
  "viewFragments (scopeInterfaceVisit exts parent node s) =
     viewFragments s @
     concat (map (\<lambda>extractor. getViewFragments extractor node)
               (filter (\<lambda>extractor. interceptAstNode extractor = kind node) exts))"
  by (simp add: scopeInterfaceVisit_def Let_def split: option.splits)

lemma fold_viewFragments:
  "viewFragments (fold (\<lambda>pn. scopeInterfaceVisit exts (fst pn) (snd pn)) pns s) =
     viewFragments s @
     concat (map (\<lambda>node. concat (map (\<lambda>extractor. getViewFragments extractor node)
                     (filter (\<lambda>extractor. interceptAstNode extractor = kind node) exts)))
               (map snd pns))"
  by (induction pns arbitrary: s) (simp_all add: scopeInterfaceVisit_viewFragments)

lemma scopeInterfaceVisit_scopeInfo:
  "scopeInfo (scopeInterfaceVisit exts parent node s) =
     (if isScopeInterface parent node then Some (getText node) else scopeInfo s)"
  by (simp add: scopeInterfaceVisit_def Let_def isScopeInterface_def parseScopeInterface_def
        filterOpt_def split: option.splits)

lemma fold_scopeInfo_None:
  "scopeInfo (fold (\<lambda>pn. scopeInterfaceVisit exts (fst pn) (snd pn)) pns s) = None \<longleftrightarrow>
     scopeInfo s = None \<and> (\<forall>pn \<in> set pns. \<not> isScopeInterface (fst pn) (snd pn))"
proof (induction pns arbitrary: s)
  case Nil
  then show ?case by simp
next
  case (Cons pn pns)
  show ?case
  proof (cases "\<forall>pn \<in> set pns. \<not> isScopeInterface (fst pn) (snd pn)")
    case True
    then show ?thesis by (simp add: Cons.IH scopeInterfaceVisit_scopeInfo)
  next
    case False
    then show ?thesis by (auto simp add: Cons.IH)
  qed
qed

text \<open>
  Claim C8: at every node visited, every registered connector listening for the node's
  kind contributes its results, not only the first one; the results are appended node
  by node in visiting order and, for one node, in the order the connectors are
  registered. The same holds for the view-fragment extractors of the scope extraction.
\<close>

theorem all_matching_connectors_run:
  assumes "fs fName = Some src"
  shows "\<exists>vi si.
     extractCtrlViewConnsAngularModule createSourceFile fs fName webappPath cs ms = Inr vi \<and>
     controllerViewInfos vi =
       concat (map (\<lambda>node. concat (map (\<lambda>conn. getControllerView conn node webappPath)
                       (filter (\<lambda>conn. cvc_interceptAstNode conn = kind node) cs)))
                 (visited (createSourceFile fName src))) \<and>
     modelViewInfos vi =
       concat (map (\<lambda>node. concat (map (\<lambda>conn. getModelView conn fName node webappPath)
                       (filter (\<lambda>conn. mvc_interceptAstNode conn = kind node) ms)))
                 (visited (createSourceFile fName src))) \<and>
     extractControllerScopeInfo createSourceFile exts fs fName = Inr si \<and>
     viewFragments si =
       concat (map (\<lambda>node. concat (map (\<lambda>extractor. getViewFragments extractor node)
                       (filter (\<lambda>extractor. interceptAstNode extractor = kind node) exts)))
                 (visited (createSourceFile fName src)))"
  using assms
  by (simp add: extractCtrlViewConnsAngularModule_def extractControllerScopeInfo_def visited_def
        nodeExtractModuleOpenAngularModule_visits [where parent = None]
        nodeExtractScopeInterface_visits
        fold_controllerViewInfos fold_modelViewInfos fold_viewFragments)

theorem all_matching_connectors_run_witness:
  "[''a.ts'' \<mapsto> ''f();''] ''a.ts'' = Some ''f();'' \<and>
   (\<exists>vi. extractCtrlViewConnsAngularModule (\<lambda>f s. exCallTree) [''a.ts'' \<mapsto> ''f();'']
           ''a.ts'' ''/app'' [exConnA, exConnB] [] = Inr vi \<and>
         controllerViewInfos vi =
           [ControllerViewInfo ''A'' ''f()'', ControllerViewInfo ''B'' ''f()''])"
proof -
  have h: "[''a.ts'' \<mapsto> ''f();''] ''a.ts'' = Some ''f();''" by simp
  have v: "visited exCallTree =
     [exCallTree,
      branch ExpressionStatement ''f();'' (Name Unknown [] []) [leaf CallExpression ''f()''],
      leaf CallExpression ''f()'']"
    by (simp add: visited_def exCallTree_def branch_def leaf_def)
  from all_matching_connectors_run [where fs = "[''a.ts'' \<mapsto> ''f();'']" and fName = "''a.ts''"
         and src = "''f();''" and createSourceFile = "\<lambda>f s. exCallTree" and webappPath = "''/app''"
         and cs = "[exConnA, exConnB]" and ms = "[]" and exts = "[]", OF h]
  obtain vi where
    "extractCtrlViewConnsAngularModule (\<lambda>f s. exCallTree) [''a.ts'' \<mapsto> ''f();'']
       ''a.ts'' ''/app'' [exConnA, exConnB] [] = Inr vi"
    "controllerViewInfos vi =
       concat (map (\<lambda>node. concat (map (\<lambda>conn. getControllerView conn node ''/app'')
                       (filter (\<lambda>conn. cvc_interceptAstNode conn = kind node)
                          [exConnA, exConnB])))
                 (visited exCallTree))"
    by blast
  then show ?thesis
    by (simp add: v) (simp add: exCallTree_def branch_def leaf_def exConnA_def exConnB_def)
qed

text \<open>
  Claim C10: when the controller file holds no non-exported interface named
  \<^verbatim>\<open>Scope\<close> directly under a module block, the scope extraction returns no scope
  contents, and \<open>processControllerView\<close> returns without writing: the files (and the
  counter) are as before.
\<close>

theorem no_scope_interface_no_output:
  assumes co: "co_extractControllerScopeInfo co = extractControllerScopeInfo createSourceFile exts"
    and src: "files st controllerPath = Some src"
    and none: "\<forall>pn \<in> set (visits None (createSourceFile controllerPath src)).
                 \<not> isScopeInterface (fst pn) (snd pn)"
  shows "\<exists>sc st'.
     extractControllerScopeInfo createSourceFile exts (files st) controllerPath = Inr sc \<and>
     scopeInfo sc = None \<and>
     processControllerView co controllerPath viewPath st = (Inr (), st') \<and>
     files st' = files st \<and> counter_i st' = counter_i st"
proof -
  let ?sc = "nodeExtractScopeInterface exts None (createSourceFile controllerPath src)
                 \<lparr>tsModuleName = None, scopeInfo = None, scopeTypeParams = None,
                  typeAliases = [], imports = [], importNames = [],
                  nonExportedDeclarations = [], viewFragments = []\<rparr>"
  have ex: "extractControllerScopeInfo createSourceFile exts (files st) controllerPath = Inr ?sc"
    using src by (simp add: extractControllerScopeInfo_def)
  have sn: "scopeInfo ?sc = None"
    using none by (simp add: nodeExtractScopeInterface_visits fold_scopeInfo_None)
  from co ex sn show ?thesis
    by (simp add: processControllerView_def Let_def scopeContents_def)
qed

theorem no_scope_interface_no_output_witness:
  "co_extractControllerScopeInfo
     ((exCollaborators exView)
        \<lparr>co_extractControllerScopeInfo := extractControllerScopeInfo (\<lambda>f s. exNoScopeTree) []\<rparr>) =
     extractControllerScopeInfo (\<lambda>f s. exNoScopeTree) [] \<and>
   files (exState\<lparr>files := [''c.ts'' \<mapsto> ''module app { interface Other {} }'']\<rparr>) ''c.ts'' =
     Some ''module app { interface Other {} }'' \<and>
   map (\<lambda>pn. isScopeInterface (fst pn) (snd pn)) (visits None exNoScopeTree) =
     [False, False, False, False] \<and>
   files (snd (processControllerView
     ((exCollaborators exView)
        \<lparr>co_extractControllerScopeInfo := extractControllerScopeInfo (\<lambda>f s. exNoScopeTree) []\<rparr>)
     ''c.ts'' ''v.html''
     (exState\<lparr>files := [''c.ts'' \<mapsto> ''module app { interface Other {} }'']\<rparr>))) =
     [''c.ts'' \<mapsto> ''module app { interface Other {} }'']"
proof -
  let ?co = "(exCollaborators exView)
        \<lparr>co_extractControllerScopeInfo := extractControllerScopeInfo (\<lambda>f s. exNoScopeTree) []\<rparr>"
  let ?st = "exState\<lparr>files := [''c.ts'' \<mapsto> ''module app { interface Other {} }'']\<rparr>"
  have h1: "co_extractControllerScopeInfo ?co =
              extractControllerScopeInfo (\<lambda>f s. exNoScopeTree) []"
    by simp
  have h2: "files ?st ''c.ts'' = Some ''module app { interface Other {} }''"
    by simp
  have h3: "\<forall>pn \<in> set (visits None ((\<lambda>f s. exNoScopeTree) ''c.ts''
                 ''module app { interface Other {} }'')).
              \<not> isScopeInterface (fst pn) (snd pn)"
    by (simp add: exNoScopeTree_def branch_def isScopeInterface_def)
  from no_scope_interface_no_output [where co = "?co" and createSourceFile = "\<lambda>f s. exNoScopeTree"
         and exts = "[]" and st = "?st" and controllerPath = "''c.ts''"
         and src = "''module app { interface Other {} }''" and viewPath = "''v.html''",
         OF h1 h2 h3]
  have "files (snd (processControllerView ?co ''c.ts'' ''v.html'' ?st)) = files ?st"
    by auto
  then have h4: "files (snd (processControllerView ?co ''c.ts'' ''v.html'' ?st)) =
     [''c.ts'' \<mapsto> ''module app { interface Other {} }'']"
    by simp
  have h3': "map (\<lambda>pn. isScopeInterface (fst pn) (snd pn)) (visits None exNoScopeTree) =
     [False, False, False, False]"
    by (simp add: exNoScopeTree_def branch_def isScopeInterface_def)
  from h1 h2 h3' h4 show ?thesis by blast
qed

section \<open>Properties of the expression rewriter\<close>

subsection \<open>Evaluation of the model\<close>

lemma grammarAt_numeral:
  "gExpr (grammarAt (numeral k)) = pExpr (grammarAt (pred_numeral k))"
  "gBinary (grammarAt (numeral k)) = pBinary (grammarAt (pred_numeral k))"
  "gBinaryRest (grammarAt (numeral k)) = pBinaryRest (grammarAt (pred_numeral k))"
  "gUnary (grammarAt (numeral k)) = pUnary (grammarAt (pred_numeral k))"
  "gPostfixRest (grammarAt (numeral k)) = pPostfixRest (grammarAt (pred_numeral k))"
  "gPrimary (grammarAt (numeral k)) = pPrimary (grammarAt (pred_numeral k))"
  "gItems (grammarAt (numeral k)) = pItems (grammarAt (pred_numeral k))"
  "gProps (grammarAt (numeral k)) = pProps (grammarAt (pred_numeral k))"
  by (simp_all add: numeral_eq_Suc Let_def)

lemmas eval_defs =
  addScopeAccessors_def rewrite_def resolveLocal_def frameDeclares_def fakeScopeInfo_def
  SQ_def DQ_def parseNgExpression_def parseFuel_def grammarAt_numeral
  pExpr_def pBinary_def pBinaryRest_def pUnary_def pPostfixRest_def pPrimary_def pItems_def
  pProps_def pAtom_def pKey_def pName_def peekPunct_def expectPunct_def peekBinaryOp_def
  binaryPrec_def isUnaryOp_def isKeywordLiteral_def filterOpt_def
  isSpace_def isIdentStart_def isIdentPart_def isDigit_def punctLength_def numberLength_def
  puncts1_def puncts2_def puncts3_def closesOperand_def Let_def

subsection \<open>The assertions of the repository's test\<close>

text \<open>
  The model returns, for each of the seventeen inputs of the test of
  \<^verbatim>\<open>addScopeAccessors\<close> and the scope stack of that test, the text the test expects.
\<close>

lemma test_addScopeAccessors_1:
  "addScopeAccessors fakeScopeInfo ''data.value'' =
     Some ''$scope.data.value''"
  by (simp add: eval_defs)

lemma test_addScopeAccessors_2:
  "addScopeAccessors fakeScopeInfo ''data.value !== undefined'' =
     Some ''$scope.data.value !== undefined''"
  by (simp add: eval_defs)

lemma test_addScopeAccessors_3:
  "addScopeAccessors fakeScopeInfo ''!wasProvidedWorkbook()'' =
     Some ''!$scope.wasProvidedWorkbook()''"
  by (simp add: eval_defs)

lemma test_addScopeAccessors_4:
  "addScopeAccessors fakeScopeInfo ''info.subscribedEmails.length > 0'' =
     Some ''$scope.info.subscribedEmails.length > 0''"
  by (simp add: eval_defs)

lemma test_addScopeAccessors_5:
  "addScopeAccessors fakeScopeInfo ''movieInfo.legendEnabled && movieInfo.legend.length > 0'' =
     Some ''$scope.movieInfo.legendEnabled && $scope.movieInfo.legend.length > 0''"
  by (simp add: eval_defs)

lemma test_addScopeAccessors_6:
  "addScopeAccessors fakeScopeInfo ''selectedScreen.images[idx - 1] !== null'' =
     Some ''$scope.selectedScreen.images[$scope.idx - 1] !== null''"
  by (simp add: eval_defs)

lemma test_addScopeAccessors_7:
  "addScopeAccessors fakeScopeInfo ''selectedScreen.images[idx - 1].name'' =
     Some ''$scope.selectedScreen.images[$scope.idx - 1].name''"
  by (simp add: eval_defs)

lemma test_addScopeAccessors_8:
  "addScopeAccessors fakeScopeInfo ''getSelectedImage(selectedScreen.images[idx - 1])'' =
     Some ''$scope.getSelectedImage($scope.selectedScreen.images[$scope.idx - 1])''"
  by (simp add: eval_defs)

lemma test_addScopeAccessors_9:
  "addScopeAccessors fakeScopeInfo (''fType === '' @ SQ @ ''test'' @ SQ @ '' || fType === '' @ SQ @ ''test1'' @ SQ) =
     Some (''$scope.fType === '' @ SQ @ ''test'' @ SQ @ '' || $scope.fType === '' @ SQ @ ''test1'' @ SQ)"
  by (simp add: eval_defs)

lemma test_addScopeAccessors_10:
  "addScopeAccessors fakeScopeInfo (''wasProvidedWorkbook ? '' @ SQ @ SQ @ '' : '' @ SQ @ ''ng-invalid'' @ SQ) =
     Some (''$scope.wasProvidedWorkbook ? '' @ SQ @ SQ @ '' : '' @ SQ @ ''ng-invalid'' @ SQ)"
  by (simp add: eval_defs)

lemma test_addScopeAccessors_11:
  "addScopeAccessors fakeScopeInfo (''{'' @ DQ @ ''internal-tab'' @ DQ @ '': true, '' @ DQ @ ''internal-active'' @ DQ @ '': idx === 0}'') =
     Some (''{'' @ DQ @ ''internal-tab'' @ DQ @ '': true, '' @ DQ @ ''internal-active'' @ DQ @ '': $scope.idx === 0}'')"
  by (simp add: eval_defs)

lemma test_addScopeAccessors_12:
  "addScopeAccessors fakeScopeInfo ''{name: wasProvidedWorkbook}'' =
     Some ''{name: $scope.wasProvidedWorkbook}''"
  by (simp add: eval_defs)

lemma test_addScopeAccessors_13:
  "addScopeAccessors fakeScopeInfo ''/^[a-z]+$/'' =
     Some (''new RegExp('' @ DQ @ ''^[a-z]+$'' @ DQ @ '')'')"
  by (simp add: eval_defs)

lemma test_addScopeAccessors_14:
  "addScopeAccessors fakeScopeInfo (''{true:'' @ SQ @ ''glyphicon-chevron-up'' @ SQ @ '', false:'' @ SQ @ ''glyphicon-chevron-down'' @ SQ @ ''}[showList]'') =
     Some (''{true: '' @ SQ @ ''glyphicon-chevron-up'' @ SQ @ '', false: '' @ SQ @ ''glyphicon-chevron-down'' @ SQ @ ''}[$scope.showList]'')"
  by (simp add: eval_defs)

lemma test_addScopeAccessors_15:
  "addScopeAccessors fakeScopeInfo ''!{entity: imported[0], selected: true}.entity.selectable'' =
     Some ''!{entity: $scope.imported[0], selected: true}.entity.selectable''"
  by (simp add: eval_defs)

lemma test_addScopeAccessors_16:
  "addScopeAccessors fakeScopeInfo ''{entity: imported[0], selected: true}.selected'' =
     Some ''{entity: $scope.imported[0], selected: true}.selected''"
  by (simp add: eval_defs)

lemma test_addScopeAccessors_17:
  "addScopeAccessors fakeScopeInfo ''{entity: imported[0], selected: true}.entity[col.field]'' =
     Some ''{entity: $scope.imported[0], selected: true}.entity[$scope.col.field]''"
  by (simp add: eval_defs)


subsection \<open>What is emitted for each kind of token\<close>









subsection \<open>Regular-expression literals in the text\<close>





subsection \<open>Dotted paths in the text\<close>


declare grammarAt.simps [simp del]












subsection \<open>The claims on the rewriter\<close>









end
